theory Spec2Isabelle
  imports Main "HOL-Library.Extended_Nat"
begin

text \<open>
  A shallow embedding of two parts of the theme tooling: the worker bundle builder
  (\<open>WorkerBundle\<close>: template assembly, static template generation, the bundler
  configuration with its plugins, and \<open>initBundle\<close>) and the steps of the push workflow
  (theme deletion, job polling, variation selection and activation). Functions keep the
  names of the source. What a function takes from outside the repository's files (the file
  system, the remote API, the template assembler, the user's answers, the other plugins) is
  a parameter; a thrown error is the left summand of the result.
\<close>

section \<open>JavaScript values, errors and effects\<close>

text \<open>
  The primitive values the workflow inspects with \<open>!x\<close>, \<open>x === y\<close> and
  \<open>x !== undefined\<close>.
\<close>

datatype jsval = JUndefined | JNull | JBool bool | JNum int | JStr string

text \<open>JavaScript truthiness (\<open>!!x\<close>).\<close>

fun truthy :: "jsval \<Rightarrow> bool" where
  "truthy JUndefined = False"
| "truthy JNull = False"
| "truthy (JBool b) = b"
| "truthy (JNum n) = (n \<noteq> 0)"
| "truthy (JStr s) = (s \<noteq> [])"

text \<open>A thrown error object: its \<open>name\<close> and its \<open>message\<close>.\<close>

datatype js_error = JsError (err_name: string) (err_message: jsval)

definition TypeError :: "string \<Rightarrow> js_error" where
  "TypeError msg = JsError ''TypeError'' (JStr msg)"

text \<open>
  \<open>Array.prototype.reduce\<close> called without an initial value: the first element is
  the initial accumulator, and an empty array throws a \<open>TypeError\<close>.
\<close>

fun js_reduce :: "('a \<Rightarrow> 'a \<Rightarrow> 'a) \<Rightarrow> 'a list \<Rightarrow> js_error + 'a" where
  "js_reduce f [] = Inl (TypeError ''Reduce of empty array with no initial value'')"
| "js_reduce f (x # xs) = Inr (foldl f x xs)"

text \<open>
  The \<open><\<close> of two numbers, each the \<open>valueOf()\<close> of a \<open>Date\<close>: \<open>None\<close> stands
  for \<open>NaN\<close> (an invalid date), and every comparison with \<open>NaN\<close> is false.
\<close>

fun js_lt :: "int option \<Rightarrow> int option \<Rightarrow> bool" where
  "js_lt (Some a) (Some b) = (a < b)"
| "js_lt _ _ = False"

section \<open>Upload workflow: the session record\<close>

record theme =
  uuid :: string
  name :: string
  is_private :: bool
  is_active :: bool
  updated_at :: string

record variation =
  uuid :: string
  name :: string

record options =
  themeLimitReached :: bool
  deleteOldest :: bool
  themes :: "theme list"
  themeIdsToDelete :: "string list option"
  applyTheme :: bool
  activate :: jsval
  variationId :: "string option"
  variations :: "variation list option"

subsection \<open>promptUserToDeleteThemesIfNecessary\<close>

text \<open>
  The object built by the \<open>.map\<close> step: the identifier and the parsed time (the
  properties \<open>uuid\<close> and \<open>updated_at\<close> of the source).
\<close>

record dated =
  d_uuid :: string
  d_updated_at :: "int option"

text \<open>The callback of the \<open>.reduce\<close> step.\<close>

definition older :: "dated \<Rightarrow> dated \<Rightarrow> dated" where
  "older prev current = (if js_lt (d_updated_at prev) (d_updated_at current) then prev else current)"

text \<open>The callback of the \<open>.filter\<close> step.\<close>

definition deletable :: "theme \<Rightarrow> bool" where
  "deletable t = (is_private t \<and> \<not> is_active t)"

text \<open>
  \<open>dateValueOf s\<close> is \<open>new Date(s).valueOf()\<close>, the milliseconds since the epoch, or
  \<open>None\<close> where the string is no date. \<open>prompt\<close> is the answer of the interactive
  checkbox question for the listed themes.
\<close>

definition oldestTheme :: "(string \<Rightarrow> int option) \<Rightarrow> theme list \<Rightarrow> js_error + dated" where
  "oldestTheme dateValueOf ts =
     js_reduce older
       (map (\<lambda>t. \<lparr>d_uuid = theme.uuid t, d_updated_at = dateValueOf (updated_at t)\<rparr>)
          (filter deletable ts))"

definition promptUserToDeleteThemesIfNecessary ::
  "(string \<Rightarrow> int option) \<Rightarrow> (theme list \<Rightarrow> string list) \<Rightarrow> options \<Rightarrow> js_error + options" where
  "promptUserToDeleteThemesIfNecessary dateValueOf prompt opts =
     (if \<not> themeLimitReached opts then Inr opts
      else if deleteOldest opts then
        (case oldestTheme dateValueOf (themes opts) of
           Inl e \<Rightarrow> Inl e
         | Inr oldest \<Rightarrow> Inr (opts\<lparr>themeIdsToDelete := Some [d_uuid oldest]\<rparr>))
      else Inr (opts\<lparr>themeIdsToDelete := Some (prompt (themes opts))\<rparr>))"

subsection \<open>Effects of the workflow\<close>

text \<open>
  What the workflow does besides returning: the percentages handed to the progress bar,
  the lines printed (without the colour codes), the delays handed to \<open>setTimeout\<close>
  in milliseconds, and how many times each remote operation has been called.
\<close>

record world =
  progress :: "jsval list"
  console :: "string list"
  timeouts :: "nat list"
  getJobCalls :: nat
  activateCalls :: nat

definition markJobProgressPercentage :: "jsval \<Rightarrow> world \<Rightarrow> world" where
  "markJobProgressPercentage percentComplete w = w\<lparr>progress := progress w @ [percentComplete]\<rparr>"

definition console_log :: "string \<Rightarrow> world \<Rightarrow> world" where
  "console_log line w = w\<lparr>console := console w @ [line]\<rparr>"

definition markJobComplete :: "world \<Rightarrow> world" where
  "markJobComplete w =
     console_log ''ok -- Theme Processing Finished'' (markJobProgressPercentage (JNum 100) w)"

definition setTimeout :: "nat \<Rightarrow> world \<Rightarrow> world" where
  "setTimeout ms w = w\<lparr>timeouts := timeouts w @ [ms]\<rparr>"

subsection \<open>The retry combinator of the async library\<close>

text \<open>
  \<open>async.retryable(opts, task)\<close> wraps \<open>task\<close> in \<open>async.retry\<close>. The library is a
  dependency, not part of the repository; this is its \<open>retry\<close>: the attempt counter
  starts at 1, and after a failed attempt the test
  \<open>err && attempt++ < options.times && options.errorFilter(err)\<close> decides between
  \<open>setTimeout(retryAttempt, interval)\<close> and handing the error to the caller. The filter
  is not called once the attempts are used up. \<open>times\<close> is \<open>\<infinity>\<close> for
  \<open>Number.POSITIVE_INFINITY\<close>.
\<close>

record retry_opts =
  interval :: nat
  errorFilter :: "js_error \<Rightarrow> world \<Rightarrow> bool \<times> world"
  times :: enat

partial_function (option) retryAttempt ::
  "retry_opts \<Rightarrow> (world \<Rightarrow> (js_error + 'a) \<times> world) \<Rightarrow> nat \<Rightarrow> world
     \<Rightarrow> ((js_error + 'a) \<times> world) option" where
  "retryAttempt opts task attempt w =
     (case task w of
        (Inr v, w1) \<Rightarrow> Some (Inr v, w1)
      | (Inl err, w1) \<Rightarrow>
          if enat attempt < times opts then
            (case errorFilter opts err w1 of
               (again, w2) \<Rightarrow>
                 if again then retryAttempt opts task (Suc attempt) (setTimeout (interval opts) w2)
                 else Some (Inl err, w2))
          else Some (Inl err, w1))"

definition retryable ::
  "retry_opts \<Rightarrow> ('o \<Rightarrow> world \<Rightarrow> (js_error + 'a) \<times> world) \<Rightarrow> 'o \<Rightarrow> world
     \<Rightarrow> ((js_error + 'a) \<times> world) option" where
  "retryable opts task args w = retryAttempt opts (task args) 1 w"

subsection \<open>pollForJobCompletion and checkIfJobIsComplete\<close>

text \<open>
  \<open>getJob n\<close> is the outcome of the call number \<open>n\<close> (from 0) of
  \<open>themeApiClient.getJob\<close>: a thrown error or a result. \<open>spread options result\<close> is
  \<open>{ ...options, ...result }\<close>.
\<close>

definition checkIfJobIsComplete ::
  "(nat \<Rightarrow> js_error + 'r) \<Rightarrow> ('o \<Rightarrow> 'r \<Rightarrow> 'o) \<Rightarrow> 'o \<Rightarrow> world \<Rightarrow> (js_error + 'o) \<times> world" where
  "checkIfJobIsComplete getJob spread opts w =
     (let w1 = w\<lparr>getJobCalls := Suc (getJobCalls w)\<rparr> in
      case getJob (getJobCalls w) of
        Inl err \<Rightarrow> (Inl err, w1)
      | Inr result \<Rightarrow> (Inr (spread opts result), markJobComplete w1))"

definition pollErrorFilter :: "js_error \<Rightarrow> world \<Rightarrow> bool \<times> world" where
  "pollErrorFilter err w =
     (if err_name err = ''JobCompletionStatusCheckPendingError''
      then (True, markJobProgressPercentage (err_message err) w)
      else (False, w))"

definition pollOpts :: retry_opts where
  "pollOpts = \<lparr>interval = 1000, errorFilter = pollErrorFilter, times = \<infinity>\<rparr>"

definition pollForJobCompletion ::
  "(nat \<Rightarrow> js_error + 'r) \<Rightarrow> ('o \<Rightarrow> 'r \<Rightarrow> 'o) \<Rightarrow> 'o \<Rightarrow> world
     \<Rightarrow> ((js_error + 'o) \<times> world) option" where
  "pollForJobCompletion getJob spread = retryable pollOpts (checkIfJobIsComplete getJob spread)"

subsection \<open>getVariations\<close>

fun js_join :: "string \<Rightarrow> string list \<Rightarrow> string" where
  "js_join sep [] = []"
| "js_join sep [x] = x"
| "js_join sep (x # y # ys) = x @ sep @ js_join sep (y # ys)"

definition invalidVariationError :: "variation list \<Rightarrow> js_error" where
  "invalidVariationError vs =
     JsError ''Error''
       (JStr (''Invalid theme variation provided!. Available options ''
              @ js_join '', '' (map variation.name vs) @ ''...''))"

text \<open>
  \<open>getVariationsByThemeId\<close> is the outcome of the remote call: a thrown error or the
  list of variations.
\<close>

definition getVariations :: "(js_error + variation list) \<Rightarrow> options \<Rightarrow> js_error + options" where
  "getVariations getVariationsByThemeId opts =
     (if \<not> applyTheme opts then Inr opts
      else case getVariationsByThemeId of
        Inl e \<Rightarrow> Inl e
      | Inr vs \<Rightarrow>
          if \<not> truthy (activate opts) \<and> activate opts \<noteq> JUndefined then
            (case find (\<lambda>item. JStr (variation.name item) = activate opts) vs of
               None \<Rightarrow> Inl (invalidVariationError vs)
             | Some foundVariation \<Rightarrow>
                 if variation.uuid foundVariation = [] then Inl (invalidVariationError vs)
                 else Inr (opts\<lparr>variationId := Some (variation.uuid foundVariation)\<rparr>))
          else if truthy (activate opts) then
            (case vs of
               [] \<Rightarrow> Inl (TypeError ''Cannot read properties of undefined (reading 'uuid')'')
             | v # _ \<Rightarrow> Inr (opts\<lparr>variationId := Some (variation.uuid v)\<rparr>))
          else Inr (opts\<lparr>variations := Some vs\<rparr>))"

subsection \<open>requestToApplyVariationWithRetrys and requestToApplyVariation\<close>

text \<open>
  \<open>activateThemeByVariationId n v\<close> is the outcome of the call number \<open>n\<close> (from 0) of
  the remote activation of variation \<open>v\<close>.
\<close>

definition requestToApplyVariation ::
  "(nat \<Rightarrow> string option \<Rightarrow> js_error + unit) \<Rightarrow> options \<Rightarrow> world \<Rightarrow> (js_error + options) \<times> world" where
  "requestToApplyVariation activateThemeByVariationId opts w =
     (if applyTheme opts then
        (let w1 = w\<lparr>activateCalls := Suc (activateCalls w)\<rparr> in
         case activateThemeByVariationId (activateCalls w) (variationId opts) of
           Inl err \<Rightarrow> (Inl err, w1)
         | Inr _ \<Rightarrow> (Inr opts, w1))
      else (Inr opts, w))"

definition activationErrorFilter :: "js_error \<Rightarrow> world \<Rightarrow> bool \<times> world" where
  "activationErrorFilter err w =
     (if err_name err = ''VariationActivationTimeoutError''
      then (True, console_log ''warning -- Theme Activation Timed Out; Retrying...'' w)
      else (False, w))"

definition activationOpts :: retry_opts where
  "activationOpts = \<lparr>interval = 1000, errorFilter = activationErrorFilter, times = 3\<rparr>"

definition requestToApplyVariationWithRetrys ::
  "(nat \<Rightarrow> string option \<Rightarrow> js_error + unit) \<Rightarrow> options \<Rightarrow> world
     \<Rightarrow> ((js_error + options) \<times> world) option" where
  "requestToApplyVariationWithRetrys activateThemeByVariationId =
     retryable activationOpts (requestToApplyVariation activateThemeByVariationId)"

section \<open>String operations of the build\<close>

text \<open>\<open>s.split(sep)\<close> for a non-empty separator: the pieces between its occurrences.\<close>

fun find_sub :: "string \<Rightarrow> string \<Rightarrow> (string \<times> string) option" where
  "find_sub sep [] = (if sep = [] then Some ([], []) else None)"
| "find_sub sep (c # cs) =
     (if take (length sep) (c # cs) = sep then Some ([], drop (length sep) (c # cs))
      else case find_sub sep cs of
             None \<Rightarrow> None
           | Some (before, rest) \<Rightarrow> Some (c # before, rest))"

fun js_split_fuel :: "nat \<Rightarrow> string \<Rightarrow> string \<Rightarrow> string list" where
  "js_split_fuel 0 sep s = [s]"
| "js_split_fuel (Suc n) sep s =
     (case find_sub sep s of
        None \<Rightarrow> [s]
      | Some (before, rest) \<Rightarrow> before # js_split_fuel n sep rest)"

text \<open>
  Every occurrence of a non-empty separator removes at least one character, so
  \<open>length s\<close> rounds are enough to reach the last piece.
\<close>

definition js_split :: "string \<Rightarrow> string \<Rightarrow> string list" where
  "js_split sep s = js_split_fuel (length s) sep s"

text \<open>\<open>xs[i]\<close>: \<open>undefined\<close> (here \<open>None\<close>) out of range.\<close>

definition js_index :: "'a list \<Rightarrow> nat \<Rightarrow> 'a option" where
  "js_index xs i = (if i < length xs then Some (xs ! i) else None)"

text \<open>\<open>s.replace(pat, rep)\<close> with a string pattern: the first occurrence only.\<close>

definition replace_first :: "string \<Rightarrow> string \<Rightarrow> string \<Rightarrow> string" where
  "replace_first pat rep s =
     (case find_sub pat s of None \<Rightarrow> s | Some (before, rest) \<Rightarrow> before @ rep @ rest)"

text \<open>\<open>s.replace(/\.html$/, '')\<close>.\<close>

definition strip_html :: "string \<Rightarrow> string" where
  "strip_html s =
     (if 5 \<le> length s \<and> drop (length s - 5) s = ''.html'' then take (length s - 5) s else s)"

text \<open>\<open>s.replace(/\\/g, '/')\<close>.\<close>

definition slashes :: "string \<Rightarrow> string" where
  "slashes s = map (\<lambda>c. if c = CHR 0x5C then CHR ''/'' else c) s"

text \<open>\<open>Array.from(new Set(arr.flat()))\<close>: the first occurrence of each element, in order.\<close>

definition removeDuplicates :: "'a list list \<Rightarrow> 'a list" where
  "removeDuplicates arr = foldl (\<lambda>seen x. if x \<in> set seen then seen else seen @ [x]) [] (concat arr)"

text \<open>
  Awaiting a list of promises with \<open>Promise.all\<close> (or \<open>async.map\<close>): the list of
  values, or a rejection. Where several reject, the one reported here is the first in
  list order.
\<close>

fun promise_all :: "(js_error + 'a) list \<Rightarrow> js_error + 'a list" where
  "promise_all [] = Inr []"
| "promise_all (Inl e # ps) = Inl e"
| "promise_all (Inr v # ps) = (case promise_all ps of Inl e \<Rightarrow> Inl e | Inr vs \<Rightarrow> Inr (v # vs))"

text \<open>
  \<open>Promise.allSettled\<close> never rejects: each entry is
  \<open>{ status: 'fulfilled', value }\<close> or \<open>{ status: 'rejected', reason }\<close>, and the
  property \<open>value\<close> of a rejected entry is \<open>undefined\<close>.
\<close>

datatype 'a settled = Fulfilled 'a | Rejected js_error

definition promise_allSettled :: "(js_error + 'a) list \<Rightarrow> 'a settled list" where
  "promise_allSettled ps = map (\<lambda>p. case p of Inl e \<Rightarrow> Rejected e | Inr v \<Rightarrow> Fulfilled v) ps"

fun settled_value :: "'a settled \<Rightarrow> 'a option" where
  "settled_value (Fulfilled v) = Some v"
| "settled_value (Rejected e) = None"

section \<open>Template assembly\<close>

text \<open>
  What \<open>_assembleTemplates\<close> takes from outside the class: the file system, the
  \<open>path\<close> module, and the template assembler.
  \<^item> \<open>recursiveReadDir dir\<close> is \<open>recursiveReadDir(dir, ['!*.html'])\<close>;
  \<^item> \<open>externalPathMatches content\<close> is \<open>content.match(externalPathRegex)\<close>, with
    \<open>[]\<close> for \<open>null\<close>;
  \<^item> \<open>partialRegexExec s\<close> is the first group of
    \<open>templateAssembler.partialRegex.exec(s)\<close>, \<open>None\<close> when there is no match;
  \<^item> \<open>assembleAndBundle root partial\<close> is the template assembler's result.
\<close>

datatype template_data = TString string | TObject "(string \<times> string) list" | TOther

record build_env =
  path_sep :: string
  path_join :: "string list \<Rightarrow> string"
  recursiveReadDir :: "string \<Rightarrow> js_error + string list"
  readFile :: "string \<Rightarrow> js_error + string"
  externalPathMatches :: "string \<Rightarrow> string list"
  partialRegexExec :: "string \<Rightarrow> string option"
  packageMarker :: string
  assembleAndBundle :: "string \<Rightarrow> string \<Rightarrow> js_error + template_data"

definition undefined_read :: "string \<Rightarrow> js_error" where
  "undefined_read prop =
     TypeError (''Cannot read properties of undefined (reading '' @ [CHR 0x27] @ prop @ [CHR 0x27] @ '')'')"

text \<open>The callback of \<open>externalTemplatesImports.map\<close> in \<open>getExternalLibs\<close>.\<close>

definition libOfImport :: "build_env \<Rightarrow> string \<Rightarrow> js_error + string" where
  "libOfImport env templateImport =
     (case partialRegexExec env templateImport of
        None \<Rightarrow> Inl (TypeError ''object null is not iterable'')
      | Some importPath \<Rightarrow>
          (case js_index (js_split ''/templates/'' importPath) 0 of
             None \<Rightarrow> Inl (undefined_read ''slice'')
           | Some lib \<Rightarrow> Inr (drop (length (packageMarker env) + 1) lib)))"

definition getExternalLibs :: "build_env \<Rightarrow> string \<Rightarrow> js_error + string list" where
  "getExternalLibs env templatePath =
     (case readFile env templatePath of
        Inl e \<Rightarrow> Inl e
      | Inr content \<Rightarrow> promise_all (map (libOfImport env) (externalPathMatches env content)))"

definition internalPartial :: "build_env \<Rightarrow> string \<Rightarrow> string \<Rightarrow> string" where
  "internalPartial env templatesPath file =
     slashes (strip_html (replace_first (templatesPath @ path_sep env) [] file))"

definition externalPartial :: "string \<Rightarrow> js_error + string" where
  "externalPartial file =
     (case js_index (js_split ''node_modules'' file) 1 of
        None \<Rightarrow> Inl (undefined_read ''replace'')
      | Some rest \<Rightarrow> Inr (slashes (''external'' @ strip_html rest)))"

text \<open>
  The callback of \<open>externalTemplatesList.reduce\<close>: it reads \<open>value\<close> of the settled
  entry and calls \<open>.map\<close> on it.
\<close>

definition pushExternal :: "js_error + string list \<Rightarrow> string list settled \<Rightarrow> js_error + string list" where
  "pushExternal acc entry =
     (case acc of
        Inl e \<Rightarrow> Inl e
      | Inr partials \<Rightarrow>
          (case settled_value entry of
             None \<Rightarrow> Inl (undefined_read ''map'')
           | Some externalTemplates \<Rightarrow>
               (case promise_all (map externalPartial externalTemplates) of
                  Inl e \<Rightarrow> Inl e
                | Inr extractedPartials \<Rightarrow> Inr (partials @ extractedPartials))))"

text \<open>
  The steps of \<open>_assembleTemplates\<close> up to \<open>allPartials\<close>. The test
  \<open>if (externalLibs.length)\<close> only skips a \<open>.map\<close> over an empty array. The listing
  of the theme's own templates is awaited once on its own and once more inside
  \<open>Promise.allSettled\<close>.
\<close>

definition externalLibsOf :: "build_env \<Rightarrow> string list \<Rightarrow> js_error + string list" where
  "externalLibsOf env internalTemplatesList =
     (case promise_all (map (getExternalLibs env) internalTemplatesList) of
        Inl e \<Rightarrow> Inl e
      | Inr result \<Rightarrow> Inr (removeDuplicates result))"

definition allPartials :: "build_env \<Rightarrow> string \<Rightarrow> js_error + string list" where
  "allPartials env themePath =
     (let templatesPath = path_join env [themePath, ''templates''] in
      case recursiveReadDir env templatesPath of
        Inl e \<Rightarrow> Inl e
      | Inr internalTemplatesList \<Rightarrow>
      (case externalLibsOf env internalTemplatesList of
        Inl e \<Rightarrow> Inl e
      | Inr externalLibs \<Rightarrow>
      (let externalLibPaths =
             map (\<lambda>lib. recursiveReadDir env (path_join env [themePath, ''node_modules'', lib, ''templates'']))
               externalLibs;
           res = promise_allSettled (recursiveReadDir env templatesPath # externalLibPaths)
       in case res of
            [] \<Rightarrow> Inl (undefined_read ''value'')
          | first # externalTemplatesList \<Rightarrow>
          (case settled_value first of
            None \<Rightarrow> Inl (undefined_read ''map'')
          | Some internalTemplates \<Rightarrow>
          (let internalPartials = map (internalPartial env templatesPath) internalTemplates in
           case foldl pushExternal (Inr []) externalTemplatesList of
             Inl e \<Rightarrow> Inl e
           | Inr externalPartials \<Rightarrow> Inr (externalPartials @ internalPartials))))))"

text \<open>
  A JavaScript object with string keys, as the list of its own properties in insertion
  order: assigning to an existing key keeps its place.
\<close>

fun obj_set :: "(string \<times> 'v) list \<Rightarrow> string \<Rightarrow> 'v \<Rightarrow> (string \<times> 'v) list" where
  "obj_set [] k v = [(k, v)]"
| "obj_set ((k', v') # kvs) k v = (if k' = k then (k, v) # kvs else (k', v') # obj_set kvs k v)"

text \<open>
  \<open>ret[file] = value\<close> on an object made by \<open>{}\<close>. The key \<open>__proto__\<close> is the
  accessor of \<open>Object.prototype\<close>: assigning to it sets the prototype (for an object
  value) or does nothing (for a string), and in both cases adds no own property.
\<close>

definition obj_assign :: "(string \<times> 'v) list \<Rightarrow> string \<Rightarrow> 'v \<Rightarrow> (string \<times> 'v) list" where
  "obj_assign ret k v = (if k = ''__proto__'' then ret else obj_set ret k v)"

definition assembleTemplates :: "build_env \<Rightarrow> string \<Rightarrow> js_error + (string \<times> template_data) list" where
  "assembleTemplates env themePath =
     (case allPartials env themePath of
        Inl e \<Rightarrow> Inl e
      | Inr partials \<Rightarrow>
          (case promise_all (map (assembleAndBundle env (path_join env [themePath, ''templates''])) partials) of
             Inl e \<Rightarrow> Inl e
           | Inr results \<Rightarrow> Inr (foldl (\<lambda>ret (file, r). obj_assign ret file r) [] (zip partials results))))"

section \<open>Static template generation\<close>

text \<open>\<open>[a-zA-Z0-9]\<close>, on character codes.\<close>

definition is_alnum :: "char \<Rightarrow> bool" where
  "is_alnum c =
     (let n = (of_char c :: nat)
      in (97 \<le> n \<and> n \<le> 122) \<or> (65 \<le> n \<and> n \<le> 90) \<or> (48 \<le> n \<and> n \<le> 57))"

text \<open>
  \<open>templateName.replace(/[^a-zA-Z0-9]/g, '_')\<close>: one underscore for each code unit of
  the string that is no ASCII letter or digit.
\<close>

definition safeName :: "string \<Rightarrow> string" where
  "safeName templateName = map (\<lambda>c. if is_alnum c then c else CHR ''_'') templateName"

definition functionName :: "string \<Rightarrow> string" where
  "functionName templateName = ''template_'' @ safeName templateName"

text \<open>
  \<open>Object.entries\<close> lists the keys that are array indices first, in ascending numeric
  order, and then the other keys in insertion order. An array index is a decimal numeral
  without a leading zero, below \<open>2^32 - 1\<close>.
\<close>

definition is_digit :: "char \<Rightarrow> bool" where
  "is_digit c = (let n = (of_char c :: nat) in 48 \<le> n \<and> n \<le> 57)"

definition decimal_value :: "string \<Rightarrow> nat" where
  "decimal_value s = foldl (\<lambda>acc c. 10 * acc + (of_char c - 48)) 0 s"

definition is_array_index :: "string \<Rightarrow> bool" where
  "is_array_index k =
     (k \<noteq> [] \<and> list_all is_digit k \<and> (k = ''0'' \<or> hd k \<noteq> CHR ''0'')
      \<and> decimal_value k < 2 ^ 32 - 1)"

definition object_entries :: "(string \<times> 'v) list \<Rightarrow> (string \<times> 'v) list" where
  "object_entries obj =
     sort_key (\<lambda>(k, v). decimal_value k) (filter (\<lambda>(k, v). is_array_index k) obj)
     @ filter (\<lambda>(k, v). \<not> is_array_index k) obj"

text \<open>
  The value \<open>templateData[templateName]\<close> of an object made by an object literal: an own
  property, or else a property inherited from \<open>Object.prototype\<close>, which is a function
  (for \<open>__proto__\<close>, the prototype object) and no string.
\<close>

datatype template_source = Source string | Inherited string

definition objectPrototypeNames :: "string list" where
  "objectPrototypeNames =
     [''constructor'', ''__defineGetter__'', ''__defineSetter__'', ''hasOwnProperty'',
      ''__lookupGetter__'', ''__lookupSetter__'', ''isPrototypeOf'', ''propertyIsEnumerable'',
      ''toString'', ''valueOf'', ''__proto__'', ''toLocaleString'']"

text \<open>
  The template source chosen for one entry, or \<open>None\<close> where the loop prints a warning
  and continues with the next entry. A string entry is taken as it is, the empty string
  included; the property of an object entry is skipped where it is falsy.
\<close>

fun templateSourceOf :: "string \<Rightarrow> template_data \<Rightarrow> template_source option" where
  "templateSourceOf templateName (TString src) = Some (Source src)"
| "templateSourceOf templateName (TObject props) =
     (case map_of props templateName of
        Some src \<Rightarrow> if src = [] then None else Some (Source src)
      | None \<Rightarrow>
          if templateName \<in> set objectPrototypeNames then Some (Inherited templateName)
          else None)"
| "templateSourceOf templateName TOther = None"

text \<open>
  \<open>Handlebars.default.precompile(templateSource, handlebarsOptions)\<close>. \<open>precompile\<close> is
  the precompiler on strings, which throws on a template it cannot parse. The template
  engine (a dependency) refuses an input that is neither a string nor a syntax tree with
  an exception of its own.
\<close>

definition precompileSource :: "(string \<Rightarrow> js_error + string) \<Rightarrow> template_source \<Rightarrow> js_error + string" where
  "precompileSource precompile templateSource =
     (case templateSource of
        Source src \<Rightarrow> precompile src
      | Inherited prop \<Rightarrow>
          Inl (JsError ''Error''
                 (JStr (''You must pass a string or Handlebars AST to Handlebars.precompile. ''
                        @ ''You passed the inherited property '' @ prop))))"

definition nl :: string where
  "nl = [CHR 0x0A]"

definition quote :: string where
  "quote = [CHR 0x27]"

definition templatesHeader :: string where
  "templatesHeader =
     ''// Pre-compiled template functions - NO EVAL!'' @ nl
     @ ''import Handlebars from '' @ quote @ ''handlebars/runtime'' @ quote @ '';'' @ nl @ nl"

text \<open>
  The \<open>for ... of Object.entries(templates)\<close> loop: the state is the text of the module
  so far and \<open>templateExports\<close>. An exception of the precompiler is printed and
  thrown again.
\<close>

fun compileTemplates ::
  "(string \<Rightarrow> js_error + string) \<Rightarrow> (string \<times> template_data) list
     \<Rightarrow> string \<times> (string \<times> string) list \<Rightarrow> js_error + string \<times> (string \<times> string) list" where
  "compileTemplates precompile [] st = Inr st"
| "compileTemplates precompile ((templateName, templateData) # rest) (templateFunctions, templateExports) =
     (case templateSourceOf templateName templateData of
        None \<Rightarrow> compileTemplates precompile rest (templateFunctions, templateExports)
      | Some templateSource \<Rightarrow>
          (case precompileSource precompile templateSource of
             Inl err \<Rightarrow> Inl err
           | Inr precompiled \<Rightarrow>
               compileTemplates precompile rest
                 (templateFunctions
                    @ ''// Template: '' @ templateName @ nl
                    @ ''const '' @ functionName templateName @ '' = Handlebars.template(''
                    @ precompiled @ '');'' @ nl @ nl,
                  templateExports @ [(templateName, functionName templateName)])))"

text \<open>The export mapping: one line per entry of \<open>templateExports\<close>.\<close>

definition exportLine :: "string \<times> string \<Rightarrow> string" where
  "exportLine e = ''  '' @ quote @ fst e @ quote @ '': '' @ snd e @ '','' @ nl"

definition exportMapping :: "(string \<times> string) list \<Rightarrow> string" where
  "exportMapping templateExports =
     ''// Export mapping of template names to functions'' @ nl
     @ ''export default {'' @ nl
     @ concat (map exportLine templateExports)
     @ ''};'' @ nl"

text \<open>
  \<open>_generateStaticTemplates\<close>: the text written to \<open>templates.js\<close>, paired with
  \<open>templateExports\<close>.
\<close>

definition generateStaticTemplates ::
  "(string \<Rightarrow> js_error + string) \<Rightarrow> (string \<times> template_data) list
     \<Rightarrow> js_error + string \<times> (string \<times> string) list" where
  "generateStaticTemplates precompile templates =
     (case compileTemplates precompile (object_entries templates) (templatesHeader, []) of
        Inl err \<Rightarrow> Inl err
      | Inr (templateFunctions, templateExports) \<Rightarrow>
          Inr (templateFunctions @ exportMapping templateExports, templateExports))"

section \<open>The static link stage\<close>

subsection \<open>Bundler plugins and module resolution\<close>

text \<open>
  A plugin of the bundler: its name and the \<open>onResolve\<close> hooks its \<open>setup\<close>
  registers, each a filter on the import path with a callback. A callback returns a path,
  declines (\<open>None\<close>) or throws. The bundler (a dependency, not part of the repository)
  asks the hooks of the plugins in the order of the \<open>plugins\<close> array, takes the first
  path returned, and resolves the import itself where every hook declines.
\<close>

record plugin =
  plugin_name :: string
  onResolve :: "((string \<Rightarrow> bool) \<times> (string \<Rightarrow> js_error + string option)) list"

fun run_hooks ::
  "((string \<Rightarrow> bool) \<times> (string \<Rightarrow> js_error + string option)) list \<Rightarrow> string
     \<Rightarrow> js_error + string option" where
  "run_hooks [] path = Inr None"
| "run_hooks ((filter_re, callback) # hooks) path =
     (if filter_re path then
        (case callback path of
           Inl e \<Rightarrow> Inl e
         | Inr (Some p) \<Rightarrow> Inr (Some p)
         | Inr None \<Rightarrow> run_hooks hooks path)
      else run_hooks hooks path)"

definition esbuild_resolve ::
  "plugin list \<Rightarrow> (string \<Rightarrow> js_error + string) \<Rightarrow> string \<Rightarrow> js_error + string" where
  "esbuild_resolve plugins default_resolve path =
     (case run_hooks (concat (map onResolve plugins)) path of
        Inl e \<Rightarrow> Inl e
      | Inr (Some p) \<Rightarrow> Inr p
      | Inr None \<Rightarrow> default_resolve path)"

text \<open>
  \<open>handlebarsRuntimePlugin\<close>. \<open>require_resolve\<close> is \<open>require2.resolve\<close>, which
  throws for a module it cannot find. The filters \<open>/^handlebars$/\<close> and
  \<open>/^@bigcommerce\/handlebars-v4$/\<close> match one string each.
\<close>

definition handlebarsRuntimePlugin :: "(string \<Rightarrow> js_error + string) \<Rightarrow> plugin" where
  "handlebarsRuntimePlugin require_resolve =
     \<lparr>plugin_name = ''handlebars-runtime'',
      onResolve =
        [(\<lambda>path. path = ''handlebars'',
          \<lambda>args. case require_resolve ''handlebars/runtime'' of
                    Inl e \<Rightarrow> Inl e
                  | Inr p \<Rightarrow> Inr (Some p)),
         (\<lambda>path. path = ''@bigcommerce/handlebars-v4'',
          \<lambda>args. case require_resolve ''@bigcommerce/handlebars-v4/runtime'' of
                    Inr p \<Rightarrow> Inr (Some p)
                  | Inl e \<Rightarrow>
                      (case require_resolve ''@bigcommerce/handlebars-v4'' of
                         Inl e' \<Rightarrow> Inl e'
                       | Inr p \<Rightarrow> Inr (Some p)))]\<rparr>"

text \<open>
  \<open>staticHelpersPlugin\<close> registers \<open>onLoad\<close> hooks only: one for the helper index
  and one for the third-party helper module, whose contents are modelled below.
\<close>

definition staticHelpersPlugin :: plugin where
  "staticHelpersPlugin = \<lparr>plugin_name = ''static-helpers'', onResolve = []\<rparr>"

text \<open>
  The \<open>plugins\<close> array handed to \<open>esbuild.build\<close>. The two polyfill plugins come from
  their packages; the entry for \<open>handlebarsRuntimePlugin\<close> is commented out in the
  source ("Disabled for now - causes precompile errors").
\<close>

definition build_plugins :: "plugin \<Rightarrow> plugin \<Rightarrow> plugin list" where
  "build_plugins nodeModulesPolyfillPlugin nodeGlobalsPolyfillPlugin =
     [staticHelpersPlugin, nodeModulesPolyfillPlugin, nodeGlobalsPolyfillPlugin]"

subsection \<open>The static third-party helper module\<close>



definition modules :: "(string \<Rightarrow> (string \<Rightarrow> 'h option) option) \<Rightarrow> string \<Rightarrow> (string \<Rightarrow> 'h option) option" where
  "modules imports groupName =
     (case map_of
        [(''array'', ''./3p/array.js''),
         (''collection'', ''./3p/collection.js''),
         (''comparison'', ''./3p/comparison.js''),
         (''html'', ''./3p/html.js''),
         (''inflection'', ''./3p/inflection.js''),
         (''markdown'', ''./3p/markdown.js''),
         (''math'', ''./3p/math.js''),
         (''number'', ''./3p/number.js''),
         (''object'', ''./3p/object.js''),
         (''string'', ''./3p/string.js''),
         (''url'', ''./3p/url.js'')] groupName of
        None \<Rightarrow> None
      | Some path \<Rightarrow> imports path)"




subsection \<open>The static helper index\<close>



section \<open>The build orchestrator\<close>

datatype stage =
    ValidateTheme | CreateOutputDir | AssembleTemplates | AssembleLang | GetSchema | GetConfig
  | GenerateWorkerPackageJson | InstallWorkerDependencies | GenerateWorkerScript | CopyAssets
  | GenerateWranglerConfig

text \<open>
  \<open>initBundle\<close> awaits one collaborator after another inside a single \<open>try\<close>.
  \<open>outcome s\<close> is what awaiting stage \<open>s\<close> gives: \<open>None\<close> when it completes,
  \<open>Some err\<close> when it throws \<open>err\<close>. The state is the list of the stages started so
  far. \<open>await\<close> is one such step followed by the rest of the \<open>try\<close> block; the
  \<open>catch\<close> block prints the message and rethrows the error it caught.
\<close>

definition await ::
  "(stage \<Rightarrow> js_error option) \<Rightarrow> stage \<Rightarrow> (stage list \<Rightarrow> (js_error + 'a) \<times> stage list)
     \<Rightarrow> stage list \<Rightarrow> (js_error + 'a) \<times> stage list" where
  "await outcome s rest started =
     (case outcome s of
        Some err \<Rightarrow> (Inl err, started @ [s])
      | None \<Rightarrow> rest (started @ [s]))"

definition outputDirOf :: "(string list \<Rightarrow> string) \<Rightarrow> string \<Rightarrow> string \<Rightarrow> string" where
  "outputDirOf join themePath dest = (if dest \<noteq> [] then dest else join [themePath, ''worker-bundle''])"

definition initBundle ::
  "(string list \<Rightarrow> string) \<Rightarrow> string \<Rightarrow> string \<Rightarrow> (stage \<Rightarrow> js_error option)
     \<Rightarrow> (js_error + string) \<times> stage list" where
  "initBundle join themePath dest outcome =
     (await outcome ValidateTheme
     (await outcome CreateOutputDir
     (await outcome AssembleTemplates
     (await outcome AssembleLang
     (await outcome GetSchema
     (await outcome GetConfig
     (await outcome GenerateWorkerPackageJson
     (await outcome InstallWorkerDependencies
     (await outcome GenerateWorkerScript
     (await outcome CopyAssets
     (await outcome GenerateWranglerConfig
     (\<lambda>started. (Inr (outputDirOf join themePath dest), started)))))))))))))
     []"

section \<open>Inputs and notions used by the theorems\<close>

subsection \<open>Deleting the oldest theme\<close>

text \<open>
  Sessions at the theme limit, with two private, inactive themes of the same date and an
  active one. \<open>spec_firstOldest\<close> follows the specification's words: the first theme,
  in list order, among the private, non-active themes that no other one is older than.
  \<open>last_min_at l i\<close> says that position \<open>i\<close> of \<open>l\<close> holds the least time and
  that every later position holds a greater one.
\<close>

definition exampleDate :: "string \<Rightarrow> int option" where
  "exampleDate s =
     (if s = ''2020-01-01T00:00:00Z'' then Some 1577836800000
      else if s = ''2021-01-01T00:00:00Z'' then Some 1609459200000
      else None)"

definition themeA :: theme where
  "themeA = \<lparr>theme.uuid = ''theme-a'', theme.name = ''A'', is_private = True, is_active = False,
             updated_at = ''2020-01-01T00:00:00Z''\<rparr>"

definition themeB :: theme where
  "themeB = \<lparr>theme.uuid = ''theme-b'', theme.name = ''B'', is_private = True, is_active = False,
             updated_at = ''2020-01-01T00:00:00Z''\<rparr>"

definition themeLive :: theme where
  "themeLive = \<lparr>theme.uuid = ''theme-live'', theme.name = ''Live'', is_private = True, is_active = True,
             updated_at = ''2021-01-01T00:00:00Z''\<rparr>"

definition noPrompt :: "theme list \<Rightarrow> string list" where
  "noPrompt ts = []"

definition sessionWith :: "theme list \<Rightarrow> options" where
  "sessionWith ts =
     \<lparr>themeLimitReached = True, deleteOldest = True, themes = ts, themeIdsToDelete = None,
      applyTheme = False, activate = JUndefined, variationId = None, variations = None\<rparr>"

definition spec_firstOldest :: "(string \<Rightarrow> int option) \<Rightarrow> theme list \<Rightarrow> theme option" where
  "spec_firstOldest dateValueOf ts =
     (let candidates = filter deletable ts
      in find (\<lambda>t. \<forall>u \<in> set candidates.
                 \<not> js_lt (dateValueOf (updated_at u)) (dateValueOf (updated_at t))) candidates)"

definition last_min_at :: "dated list \<Rightarrow> nat \<Rightarrow> bool" where
  "last_min_at l i = (\<forall>j < length l. \<exists>m n. d_updated_at (l ! i) = Some m
                  \<and> d_updated_at (l ! j) = Some n \<and> m \<le> n \<and> (i < j \<longrightarrow> m < n))"

subsection \<open>Polling and activation\<close>

text \<open>
  \<open>thrownMessage r\<close> is the message of the error of an outcome \<open>r\<close> that is a failure.
  \<open>world0\<close> is the state before the workflow runs. \<open>exampleJob\<close> answers pending at
  10 percent, pending at 55 percent, and then complete; \<open>pendingThenFails\<close> answers
  pending once and then fails; \<open>alwaysPending\<close> answers pending for ever.
  \<open>timeoutsThenOk\<close> lets the
  activation time out twice and then succeed; \<open>alwaysTimeout\<close> lets it time out every
  time.
\<close>

definition thrownMessage :: "js_error + 'r \<Rightarrow> jsval" where
  "thrownMessage r = (case r of Inl e \<Rightarrow> err_message e | Inr v \<Rightarrow> JUndefined)"

definition world0 :: world where
  "world0 = \<lparr>progress = [], console = [], timeouts = [], getJobCalls = 0, activateCalls = 0\<rparr>"

definition exampleJob :: "nat \<Rightarrow> js_error + string" where
  "exampleJob n =
     (if n = 0 then Inl (JsError ''JobCompletionStatusCheckPendingError'' (JNum 10))
      else if n = 1 then Inl (JsError ''JobCompletionStatusCheckPendingError'' (JNum 55))
      else Inr ''complete'')"

definition pendingThenFails :: "nat \<Rightarrow> js_error + string" where
  "pendingThenFails n =
     (if n = 0 then Inl (JsError ''JobCompletionStatusCheckPendingError'' (JNum 10))
      else Inl (JsError ''Error'' (JStr ''Request failed'')))"

definition alwaysPending :: "nat \<Rightarrow> js_error + string" where
  "alwaysPending n = Inl (JsError ''JobCompletionStatusCheckPendingError'' (JNum 50))"

definition keepOptions :: "options \<Rightarrow> string \<Rightarrow> options" where
  "keepOptions opts result = opts"

definition timeoutError :: js_error where
  "timeoutError = JsError ''VariationActivationTimeoutError'' (JStr ''timed out'')"

definition timeoutsThenOk :: "nat \<Rightarrow> string option \<Rightarrow> js_error + unit" where
  "timeoutsThenOk n v = (if n < 2 then Inl timeoutError else Inr ())"

definition alwaysTimeout :: "nat \<Rightarrow> string option \<Rightarrow> js_error + unit" where
  "alwaysTimeout n v = Inl timeoutError"

text \<open>
  \<open>isTimeout r\<close>: the outcome \<open>r\<close> is a failure named
  \<open>VariationActivationTimeoutError\<close>. \<open>surfaced opts r\<close> is what the caller of the
  activation step gets from the outcome \<open>r\<close> of its last attempt: the error, or the
  session.
\<close>

definition isTimeout :: "js_error + 'a \<Rightarrow> bool" where
  "isTimeout r = (case r of Inl e \<Rightarrow> err_name e = ''VariationActivationTimeoutError'' | Inr v \<Rightarrow> False)"

definition surfaced :: "options \<Rightarrow> js_error + unit \<Rightarrow> js_error + options" where
  "surfaced opts r = (case r of Inl e \<Rightarrow> Inl e | Inr v \<Rightarrow> Inr opts)"

definition retryWarning :: string where
  "retryWarning = ''warning -- Theme Activation Timed Out; Retrying...''"

subsection \<open>Selecting a variation\<close>

text \<open>
  A session for which activation was requested with the value \<open>a\<close> of the
  \<open>activate\<close> flag, and the variations Light and Dark.
\<close>

definition activationSession :: "jsval \<Rightarrow> options" where
  "activationSession a =
     \<lparr>themeLimitReached = False, deleteOldest = False, themes = [], themeIdsToDelete = None,
      applyTheme = True, activate = a, variationId = None, variations = None\<rparr>"

definition lightDark :: "variation list" where
  "lightDark =
     [\<lparr>variation.uuid = ''uuid-light'', variation.name = ''Light''\<rparr>,
      \<lparr>variation.uuid = ''uuid-dark'', variation.name = ''Dark''\<rparr>]"

subsection \<open>The build\<close>

text \<open>
  \<open>code_stage_order\<close> is the order of the awaits in \<open>initBundle\<close>;
  \<open>spec_stage_order\<close> follows the specification's words, with the output directory
  created after the schema and configuration are fetched. \<open>runStages\<close> runs a list
  of stages one after another and stops at the first that throws. \<open>allSucceed\<close> and
  \<open>templatesFail\<close> are two runs of the collaborators: in the second the template
  assembly throws.
\<close>

definition code_stage_order :: "stage list" where
  "code_stage_order =
     [ValidateTheme, CreateOutputDir, AssembleTemplates, AssembleLang, GetSchema, GetConfig,
      GenerateWorkerPackageJson, InstallWorkerDependencies, GenerateWorkerScript, CopyAssets,
      GenerateWranglerConfig]"

definition spec_stage_order :: "stage list" where
  "spec_stage_order =
     [ValidateTheme, AssembleTemplates, AssembleLang, GetSchema, GetConfig, CreateOutputDir,
      GenerateWorkerPackageJson, InstallWorkerDependencies, GenerateWorkerScript, CopyAssets,
      GenerateWranglerConfig]"

fun runStages :: "(stage \<Rightarrow> js_error option) \<Rightarrow> stage list \<Rightarrow> stage list \<Rightarrow> js_error option \<times> stage list" where
  "runStages outcome [] started = (None, started)"
| "runStages outcome (s # ss) started =
     (case outcome s of
        Some err \<Rightarrow> (Some err, started @ [s])
      | None \<Rightarrow> runStages outcome ss (started @ [s]))"

definition allSucceed :: "stage \<Rightarrow> js_error option" where
  "allSucceed s = None"

definition templatesFail :: "stage \<Rightarrow> js_error option" where
  "templatesFail s =
     (if s = AssembleTemplates then Some (JsError ''Error'' (JStr ''ENOENT: no such file or directory''))
      else None)"

definition slashJoin :: "string list \<Rightarrow> string" where
  "slashJoin parts = js_join ''/'' parts"

subsection \<open>The helper allow-list\<close>









subsection \<open>Generated templates\<close>

text \<open>
  \<open>hasSource e\<close>: the loop compiles the entry \<open>e\<close> rather than skipping it, and
  \<open>templateDeclaration precompile e\<close> is the text it then adds to the module.
  \<open>inheritedTemplates\<close> is an entry whose object has no property of the entry's name
  but inherits one.
  \<open>examplePrecompile\<close> stands for a precompiler that accepts every source.
  \<open>clashTemplates\<close> are two partials whose identifiers differ in one separator.
\<close>

definition hasSource :: "string \<times> template_data \<Rightarrow> bool" where
  "hasSource e = (templateSourceOf (fst e) (snd e) \<noteq> None)"

definition templateDeclaration :: "(string \<Rightarrow> js_error + string) \<Rightarrow> string \<times> template_data \<Rightarrow> string" where
  "templateDeclaration precompile e =
     (case templateSourceOf (fst e) (snd e) of
        None \<Rightarrow> []
      | Some templateSource \<Rightarrow>
          (case precompileSource precompile templateSource of
             Inl err \<Rightarrow> []
           | Inr precompiled \<Rightarrow>
               ''// Template: '' @ fst e @ nl
               @ ''const '' @ functionName (fst e) @ '' = Handlebars.template(''
               @ precompiled @ '');'' @ nl @ nl))"

definition inheritedTemplates :: "(string \<times> template_data) list" where
  "inheritedTemplates = [(''toString'', TObject [(''pages/home'', ''one'')])]"

definition examplePrecompile :: "string \<Rightarrow> js_error + string" where
  "examplePrecompile src = Inr (''{/* '' @ src @ '' */}'')"

definition clashTemplates :: "(string \<times> template_data) list" where
  "clashTemplates =
     [(''components/a-b'', TString ''one''), (''components/a_b'', TString ''two'')]"

subsection \<open>Module resolution\<close>

text \<open>
  \<open>exampleResolve\<close> is a module resolution in which the full template engine and its
  runtime-only variant are two files. \<open>examplePolyfill\<close> stands for a polyfill plugin:
  it takes over the imports of some modules of the run-time platform and declines every
  other import.
\<close>

definition exampleResolve :: "string \<Rightarrow> js_error + string" where
  "exampleResolve path =
     (if path = ''handlebars'' then Inr ''node_modules/handlebars/dist/cjs/handlebars.js''
      else if path = ''handlebars/runtime'' then Inr ''node_modules/handlebars/dist/cjs/handlebars.runtime.js''
      else Inl (JsError ''Error'' (JStr (''Cannot find module '' @ path))))"

definition examplePolyfill :: "string \<Rightarrow> plugin" where
  "examplePolyfill pluginName =
     \<lparr>plugin_name = pluginName,
      onResolve =
        [(\<lambda>path. path \<in> set [''fs'', ''path'', ''buffer'', ''process'', ''util'', ''events''],
          \<lambda>path. Inr (Some (''polyfill:'' @ path)))]\<rparr>"

subsection \<open>Template assembly with a missing library directory\<close>

text \<open>
  A theme with one template, \<open>pages/home\<close>, that includes a partial of the external
  library \<open>foo\<close>; the only directory that can be listed is the theme's own template
  directory, and listing any other one fails as a missing directory does.
\<close>

definition homeTemplate :: string where
  "homeTemplate = ''{{> 'external/foo/templates/card'}}''"

definition noSuchDirectory :: "string \<Rightarrow> js_error" where
  "noSuchDirectory dir = JsError ''Error'' (JStr (''ENOENT: no such file or directory, scandir '' @ dir))"

definition exampleEnv :: build_env where
  "exampleEnv =
     \<lparr>path_sep = ''/'',
      path_join = slashJoin,
      recursiveReadDir =
        (\<lambda>dir. if dir = ''theme/templates'' then Inr [''theme/templates/pages/home.html'']
               else Inl (noSuchDirectory dir)),
      readFile =
        (\<lambda>file. if file = ''theme/templates/pages/home.html'' then Inr homeTemplate
                else Inl (JsError ''Error'' (JStr (''ENOENT: no such file or directory, open '' @ file)))),
      externalPathMatches = (\<lambda>content. if content = homeTemplate then [homeTemplate] else []),
      partialRegexExec =
        (\<lambda>s. if s = homeTemplate then Some (quote @ ''external/foo/templates/card'' @ quote) else None),
      packageMarker = ''external/'',
      assembleAndBundle = (\<lambda>root partialName. Inr (TString (''<'' @ partialName @ ''>'')))\<rparr>"

section \<open>Lemmas: splitting a string\<close>

text \<open>
  The rounds allowed by \<open>js_split\<close> are enough: with more rounds the result is the
  same, so \<open>js_split\<close> is the split at every occurrence of the separator.
\<close>


lemma find_sub_shorter:
  "find_sub sep s = Some (before, rest) \<Longrightarrow> sep \<noteq> [] \<Longrightarrow> length rest < length s"
proof (induction s arbitrary: before)
  case Nil
  then show ?case by simp
next
  case (Cons c cs)
  show ?case
  proof (cases "take (length sep) (c # cs) = sep")
    case True
    with Cons.prems have "rest = drop (length sep) (c # cs)" by simp
    with Cons.prems(2) show ?thesis by (cases sep) auto
  next
    case False
    with Cons.prems obtain b where "find_sub sep cs = Some (b, rest)"
      by (auto split: option.splits)
    from Cons.IH [OF this Cons.prems(2)] show ?thesis by simp
  qed
qed

lemma js_split_fuel_any:
  "sep \<noteq> [] \<Longrightarrow> length s \<le> n \<Longrightarrow> length s \<le> m \<Longrightarrow>
     js_split_fuel n sep s = js_split_fuel m sep s"
proof (induction n arbitrary: m s)
  case 0
  then have "s = []" by simp
  with 0 show ?case by (cases m) simp_all
next
  case (Suc n)
  show ?case
  proof (cases m)
    case 0
    with Suc.prems have "s = []" by simp
    with Suc.prems 0 show ?thesis by simp
  next
    case m: (Suc m')
    show ?thesis
    proof (cases "find_sub sep s")
      case None
      with m show ?thesis by simp
    next
      case (Some p)
      obtain before rest where p: "p = (before, rest)" by (cases p)
      from find_sub_shorter [of sep s before rest] Some p Suc.prems(1)
      have "length rest < length s" by simp
      with Suc.prems m have "length rest \<le> n" "length rest \<le> m'" by simp_all
      from Suc.IH [OF Suc.prems(1) this]
      show ?thesis using Some p m by simp
    qed
  qed
qed

lemma js_split_fuel_enough:
  "sep \<noteq> [] \<Longrightarrow> length s \<le> n \<Longrightarrow> js_split_fuel n sep s = js_split sep s"
  unfolding js_split_def by (rule js_split_fuel_any) simp_all

lemma js_split_unfold:
  "sep \<noteq> [] \<Longrightarrow>
     js_split sep s =
       (case find_sub sep s of
          None \<Rightarrow> [s]
        | Some (before, rest) \<Rightarrow> before # js_split sep rest)"
proof (cases "find_sub sep s")
  case None
  then show ?thesis by (cases s) (simp_all add: js_split_def)
next
  case (Some p)
  assume sep: "sep \<noteq> []"
  obtain before rest where p: "p = (before, rest)" by (cases p)
  from find_sub_shorter [of sep s before rest] Some p sep
  have shorter: "length rest < length s" by simp
  then obtain k where k: "length s = Suc k" by (cases s) auto
  with shorter have "length rest \<le> k" by simp
  from js_split_fuel_enough [OF sep this]
  show ?thesis using Some p k by (simp add: js_split_def)
qed

section \<open>Theorems: deleting the oldest theme\<close>

lemma last_min_at_keep:
  assumes "i < length l" "last_min_at l i" "d_updated_at (l ! i) = Some m" "d_updated_at y = Some k" "m < k"
  shows "last_min_at (l @ [y]) i"
  unfolding last_min_at_def
proof (intro allI impI)
  fix j assume j: "j < length (l @ [y])"
  show "\<exists>m n. d_updated_at ((l @ [y]) ! i) = Some m
                  \<and> d_updated_at ((l @ [y]) ! j) = Some n \<and> m \<le> n \<and> (i < j \<longrightarrow> m < n)"
  proof (cases "j < length l")
    case True
    with assms(1,2) show ?thesis by (simp add: nth_append last_min_at_def)
  next
    case False
    with j have "j = length l" by simp
    then show ?thesis using assms by (simp add: nth_append)
  qed
qed

lemma last_min_at_new:
  assumes "i < length l" "last_min_at l i" "d_updated_at (l ! i) = Some m" "d_updated_at y = Some k" "\<not> m < k"
  shows "last_min_at (l @ [y]) (length l)"
  unfolding last_min_at_def
proof (intro allI impI)
  fix j assume j: "j < length (l @ [y])"
  show "\<exists>m n. d_updated_at ((l @ [y]) ! length l) = Some m
                  \<and> d_updated_at ((l @ [y]) ! j) = Some n \<and> m \<le> n \<and> (length l < j \<longrightarrow> m < n)"
  proof (cases "j < length l")
    case True
    with assms(2,3) obtain n where "d_updated_at (l ! j) = Some n" "m \<le> n"
      unfolding last_min_at_def by fastforce
    then show ?thesis using True assms(4,5) by (simp add: nth_append)
  next
    case False
    with j have "j = length l" by simp
    then show ?thesis using assms(4) by (simp add: nth_append)
  qed
qed

lemma foldl_older_last_min:
  assumes "\<forall>d \<in> set (x # xs). d_updated_at d \<noteq> None"
  shows "\<exists>i < length (x # xs). foldl older x xs = (x # xs) ! i \<and> last_min_at (x # xs) i"
  using assms
proof (induction xs rule: rev_induct)
  case Nil
  then show ?case by (auto simp: last_min_at_def)
next
  case (snoc y ys)
  define l where "l = x # ys"
  from snoc.prems have valid: "\<forall>d \<in> set (x # ys). d_updated_at d \<noteq> None" by auto
  from snoc.IH [OF valid] obtain i where i: "i < length l" "foldl older x ys = l ! i"
    and mn: "last_min_at l i"
    unfolding l_def by blast
  have "l ! i \<in> set l" using i by simp
  with valid obtain m where m: "d_updated_at (l ! i) = Some m" unfolding l_def by blast
  from snoc.prems obtain k where k: "d_updated_at y = Some k" by auto
  have app: "(x # ys @ [y]) = l @ [y]" by (simp add: l_def)
  show ?case
  proof (cases "m < k")
    case True
    then have "foldl older x (ys @ [y]) = (l @ [y]) ! i"
      using i m k by (simp add: older_def nth_append)
    moreover have "last_min_at (l @ [y]) i" using last_min_at_keep [OF i(1) mn m k True] .
    moreover have "i < length (l @ [y])" using i by simp
    ultimately show ?thesis unfolding app by blast
  next
    case False
    then have "foldl older x (ys @ [y]) = (l @ [y]) ! length l"
      using i m k by (simp add: older_def nth_append)
    moreover have "last_min_at (l @ [y]) (length l)" using last_min_at_new [OF i(1) mn m k False] .
    moreover have "length l < length (l @ [y])" by simp
    ultimately show ?thesis unfolding app by blast
  qed
qed

lemma oldestTheme_last_min:
  assumes cs: "cs = filter (\<lambda>t. is_private t \<and> \<not> is_active t) ts" "cs \<noteq> []"
    and valid: "\<forall>t \<in> set cs. dateValueOf (updated_at t) \<noteq> None"
  shows "\<exists>i < length cs. oldestTheme dateValueOf ts
            = Inr \<lparr>d_uuid = theme.uuid (cs ! i), d_updated_at = dateValueOf (updated_at (cs ! i))\<rparr>
          \<and> (\<forall>j < length cs. \<exists>m n. dateValueOf (updated_at (cs ! i)) = Some m
                 \<and> dateValueOf (updated_at (cs ! j)) = Some n \<and> m \<le> n \<and> (i < j \<longrightarrow> m < n))"
proof -
  define mk where "mk = (\<lambda>t::theme. \<lparr>d_uuid = theme.uuid t, d_updated_at = dateValueOf (updated_at t)\<rparr>)"
  have f: "filter deletable ts = cs" using cs(1) by (simp add: deletable_def [abs_def])
  from cs(2) obtain c rest where cr: "cs = c # rest" by (cases cs) auto
  have "\<forall>d \<in> set (mk c # map mk rest). d_updated_at d \<noteq> None"
    using valid cr by (auto simp: mk_def)
  from foldl_older_last_min [OF this] obtain i where
    i: "i < length (mk c # map mk rest)" "foldl older (mk c) (map mk rest) = (mk c # map mk rest) ! i"
       "last_min_at (mk c # map mk rest) i" by blast
  have m: "mk c # map mk rest = map mk cs" using cr by simp
  have il: "i < length cs" using i(1) cr by simp
  have "foldl older (mk c) (map mk rest) = mk (cs ! i)"
    using i(2) il unfolding m by simp
  then have "oldestTheme dateValueOf ts = Inr (mk (cs ! i))"
    by (simp add: oldestTheme_def f cr mk_def [symmetric])
  moreover have "\<forall>j < length cs. \<exists>m n. dateValueOf (updated_at (cs ! i)) = Some m
                 \<and> dateValueOf (updated_at (cs ! j)) = Some n \<and> m \<le> n \<and> (i < j \<longrightarrow> m < n)"
    using i(3) il unfolding m last_min_at_def by (simp add: mk_def)
  ultimately show ?thesis using il unfolding mk_def by blast
qed

text \<open>
  Claim C4, as amended. For a session at the theme limit with \<open>deleteOldest\<close> set, whose
  private, non-active themes \<open>cs\<close> are not empty and all carry a valid date, the
  deletion list is exactly one identifier: that of a theme of \<open>cs\<close> whose
  \<open>updated_at\<close> is the minimum over \<open>cs\<close>, and where several share the minimum, the
  one that comes last in list order (every later candidate is strictly younger).
\<close>

theorem C4_delete_oldest_selects_last_minimum:
  assumes "themeLimitReached opts" and "deleteOldest opts"
    and "cs = filter (\<lambda>t. is_private t \<and> \<not> is_active t) (themes opts)" and "cs \<noteq> []"
    and "\<forall>t \<in> set cs. dateValueOf (updated_at t) \<noteq> None"
  shows "\<exists>i < length cs.
           promptUserToDeleteThemesIfNecessary dateValueOf prompt opts
             = Inr (opts\<lparr>themeIdsToDelete := Some [theme.uuid (cs ! i)]\<rparr>)
         \<and> (\<forall>j < length cs. \<exists>m n. dateValueOf (updated_at (cs ! i)) = Some m
                 \<and> dateValueOf (updated_at (cs ! j)) = Some n \<and> m \<le> n \<and> (i < j \<longrightarrow> m < n))"
proof -
  from oldestTheme_last_min [OF assms(3,4,5)] obtain i where
    "i < length cs"
    "oldestTheme dateValueOf (themes opts)
       = Inr \<lparr>d_uuid = theme.uuid (cs ! i), d_updated_at = dateValueOf (updated_at (cs ! i))\<rparr>"
    "\<forall>j < length cs. \<exists>m n. dateValueOf (updated_at (cs ! i)) = Some m
                 \<and> dateValueOf (updated_at (cs ! j)) = Some n \<and> m \<le> n \<and> (i < j \<longrightarrow> m < n)"
    by blast
  then show ?thesis
    using assms(1,2) by (auto simp: promptUserToDeleteThemesIfNecessary_def)
qed

text \<open>
  Claim C4 as stated fails on a tie: with two private, inactive themes of the same date the
  specification's choice is the first, \<open>theme-a\<close>, and the code selects the second,
  \<open>theme-b\<close>.
\<close>

theorem C4_delete_oldest_tie_counterexample:
  "themeLimitReached (sessionWith [themeA, themeB]) \<and> deleteOldest (sessionWith [themeA, themeB])
   \<and> spec_firstOldest exampleDate (themes (sessionWith [themeA, themeB])) = Some themeA
   \<and> promptUserToDeleteThemesIfNecessary exampleDate noPrompt (sessionWith [themeA, themeB])
       = Inr ((sessionWith [themeA, themeB])\<lparr>themeIdsToDelete := Some [''theme-b'']\<rparr>)
   \<and> promptUserToDeleteThemesIfNecessary exampleDate noPrompt (sessionWith [themeA, themeB])
       \<noteq> Inr ((sessionWith [themeA, themeB])\<lparr>themeIdsToDelete := Some [theme.uuid themeA]\<rparr>)"
  by (simp add: sessionWith_def themeA_def themeB_def spec_firstOldest_def deletable_def
      exampleDate_def promptUserToDeleteThemesIfNecessary_def oldestTheme_def older_def)

text \<open>
  Claim C10. For a session at the theme limit with \<open>deleteOldest\<close> set whose theme list
  holds no theme that is both private and non-active, the step throws the \<open>TypeError\<close>
  of a reduce over an empty list without an initial value: it returns no session, and the
  error is not named \<open>ThemeDeletionError\<close>.
\<close>

theorem C10_no_candidate_throws_TypeError:
  assumes "themeLimitReached opts" and "deleteOldest opts"
    and "\<forall>t \<in> set (themes opts). \<not> (is_private t \<and> \<not> is_active t)"
  shows "\<exists>e. promptUserToDeleteThemesIfNecessary dateValueOf prompt opts = Inl e
           \<and> err_name e = ''TypeError'' \<and> err_name e \<noteq> ''ThemeDeletionError''
           \<and> err_message e = JStr ''Reduce of empty array with no initial value''"
proof -
  have "filter deletable (themes opts) = []"
    using assms(3) by (simp add: deletable_def filter_empty_conv)
  then show ?thesis
    using assms(1,2)
    by (simp add: promptUserToDeleteThemesIfNecessary_def oldestTheme_def TypeError_def)
qed

text \<open>Claim C10 at a session whose only theme is the active one.\<close>

theorem C10_no_candidate_witness:
  "\<exists>e. promptUserToDeleteThemesIfNecessary exampleDate noPrompt (sessionWith [themeLive]) = Inl e
           \<and> err_name e = ''TypeError'' \<and> err_name e \<noteq> ''ThemeDeletionError''
           \<and> err_message e = JStr ''Reduce of empty array with no initial value''"
proof -
  have a: "themeLimitReached (sessionWith [themeLive])" by (simp add: sessionWith_def)
  have b: "deleteOldest (sessionWith [themeLive])" by (simp add: sessionWith_def)
  have c: "\<forall>t \<in> set (themes (sessionWith [themeLive])). \<not> (is_private t \<and> \<not> is_active t)"
    by (simp add: sessionWith_def themeLive_def)
  from C10_no_candidate_throws_TypeError [OF a b c, of exampleDate noPrompt]
  show ?thesis .
qed

text \<open>
  Claim C4, as amended, at the session with themes A, Live and B: the candidates are A and
  B, of the same date, and the identifier selected is that of B.
\<close>

theorem C4_delete_oldest_witness:
  "[themeA, themeB]
     = filter (\<lambda>t. is_private t \<and> \<not> is_active t) (themes (sessionWith [themeA, themeLive, themeB]))
   \<and> (\<exists>i < length [themeA, themeB].
           promptUserToDeleteThemesIfNecessary exampleDate noPrompt (sessionWith [themeA, themeLive, themeB])
             = Inr ((sessionWith [themeA, themeLive, themeB])\<lparr>themeIdsToDelete := Some [theme.uuid ([themeA, themeB] ! i)]\<rparr>)
         \<and> (\<forall>j < length [themeA, themeB]. \<exists>m n. exampleDate (updated_at ([themeA, themeB] ! i)) = Some m
                 \<and> exampleDate (updated_at ([themeA, themeB] ! j)) = Some n \<and> m \<le> n \<and> (i < j \<longrightarrow> m < n)))"
proof -
  have a: "themeLimitReached (sessionWith [themeA, themeLive, themeB])" by (simp add: sessionWith_def)
  have b: "deleteOldest (sessionWith [themeA, themeLive, themeB])" by (simp add: sessionWith_def)
  have c: "[themeA, themeB] = filter (\<lambda>t. is_private t \<and> \<not> is_active t) (themes (sessionWith [themeA, themeLive, themeB]))"
    by (simp add: sessionWith_def themeA_def themeB_def themeLive_def)
  have d: "[themeA, themeB] \<noteq> []" by simp
  have e: "\<forall>t \<in> set [themeA, themeB]. exampleDate (updated_at t) \<noteq> None"
    by (simp add: themeA_def themeB_def exampleDate_def)
  from C4_delete_oldest_selects_last_minimum [OF a b c d e, of noPrompt] c
  show ?thesis by blast
qed

section \<open>Theorems: polling for job completion\<close>


lemma poll_step_pending:
  assumes "getJob (getJobCalls w) = Inl e" "err_name e = ''JobCompletionStatusCheckPendingError''"
  shows "retryAttempt pollOpts (checkIfJobIsComplete getJob spread opts) a w
         = retryAttempt pollOpts (checkIfJobIsComplete getJob spread opts) (Suc a)
             (w\<lparr>getJobCalls := Suc (getJobCalls w),
                progress := progress w @ [err_message e],
                timeouts := timeouts w @ [1000]\<rparr>)"
  apply (subst retryAttempt.simps)
  using assms
  apply (simp add: checkIfJobIsComplete_def pollOpts_def pollErrorFilter_def
      markJobProgressPercentage_def setTimeout_def)
  done

lemma poll_step_complete:
  assumes "getJob (getJobCalls w) = Inr result"
  shows "retryAttempt pollOpts (checkIfJobIsComplete getJob spread opts) a w
         = Some (Inr (spread opts result),
             w\<lparr>getJobCalls := Suc (getJobCalls w),
               progress := progress w @ [JNum 100],
               console := console w @ [''ok -- Theme Processing Finished'']\<rparr>)"
  apply (subst retryAttempt.simps)
  using assms
  apply (simp add: checkIfJobIsComplete_def markJobComplete_def console_log_def
      markJobProgressPercentage_def)
  done

lemma poll_step_failed:
  assumes "getJob (getJobCalls w) = Inl e" "err_name e \<noteq> ''JobCompletionStatusCheckPendingError''"
  shows "retryAttempt pollOpts (checkIfJobIsComplete getJob spread opts) a w
         = Some (Inl e, w\<lparr>getJobCalls := Suc (getJobCalls w)\<rparr>)"
  apply (subst retryAttempt.simps)
  using assms
  apply (simp add: checkIfJobIsComplete_def pollOpts_def pollErrorFilter_def)
  done

lemma poll_pending_prefix:
  assumes "\<forall>i<k. \<exists>e. getJob (getJobCalls w + i) = Inl e
              \<and> err_name e = ''JobCompletionStatusCheckPendingError''"
  shows "retryAttempt pollOpts (checkIfJobIsComplete getJob spread opts) a w
         = retryAttempt pollOpts (checkIfJobIsComplete getJob spread opts) (a + k)
             (w\<lparr>progress := progress w @ map (\<lambda>i. thrownMessage (getJob (getJobCalls w + i))) [0..<k],
                timeouts := timeouts w @ replicate k 1000,
                getJobCalls := getJobCalls w + k\<rparr>)"
  using assms
proof (induction k arbitrary: a w)
  case 0
  then show ?case by simp
next
  case (Suc k)
  from Suc.prems obtain e where e: "getJob (getJobCalls w) = Inl e"
    "err_name e = ''JobCompletionStatusCheckPendingError''" by fastforce
  define w' where "w' = w\<lparr>getJobCalls := Suc (getJobCalls w),
                progress := progress w @ [err_message e],
                timeouts := timeouts w @ [1000]\<rparr>"
  have rest: "\<forall>i<k. \<exists>e. getJob (getJobCalls w' + i) = Inl e
              \<and> err_name e = ''JobCompletionStatusCheckPendingError''"
  proof (intro allI impI)
    fix i assume "i < k"
    then have "Suc i < Suc k" by simp
    with Suc.prems have "\<exists>e. getJob (getJobCalls w + Suc i) = Inl e
              \<and> err_name e = ''JobCompletionStatusCheckPendingError''" by blast
    then show "\<exists>e. getJob (getJobCalls w' + i) = Inl e
              \<and> err_name e = ''JobCompletionStatusCheckPendingError''" by (simp add: w'_def)
  qed
  have "retryAttempt pollOpts (checkIfJobIsComplete getJob spread opts) a w
        = retryAttempt pollOpts (checkIfJobIsComplete getJob spread opts) (Suc a) w'"
    unfolding w'_def using e by (rule poll_step_pending)
  also have "\<dots> = retryAttempt pollOpts (checkIfJobIsComplete getJob spread opts) (Suc a + k)
             (w'\<lparr>progress := progress w' @ map (\<lambda>i. thrownMessage (getJob (getJobCalls w' + i))) [0..<k],
                timeouts := timeouts w' @ replicate k 1000,
                getJobCalls := getJobCalls w' + k\<rparr>)"
    by (rule Suc.IH [OF rest])
  also have "w'\<lparr>progress := progress w' @ map (\<lambda>i. thrownMessage (getJob (getJobCalls w' + i))) [0..<k],
                timeouts := timeouts w' @ replicate k 1000,
                getJobCalls := getJobCalls w' + k\<rparr>
           = w\<lparr>progress := progress w @ map (\<lambda>i. thrownMessage (getJob (getJobCalls w + i))) [0..<Suc k],
                timeouts := timeouts w @ replicate (Suc k) 1000,
                getJobCalls := getJobCalls w + Suc k\<rparr>"
    by (rule world.equality) (simp_all add: w'_def map_upt_Suc e thrownMessage_def del: upt_Suc)
  finally show ?case by simp
qed

lemma poll_never_returns:
  assumes "retryAttempt ro task a w = Some y"
  shows "ro = pollOpts \<longrightarrow> task = checkIfJobIsComplete getJob spread opts \<longrightarrow>
     (\<exists>i. \<forall>e. getJob (getJobCalls w + i) = Inl e
            \<longrightarrow> err_name e \<noteq> ''JobCompletionStatusCheckPendingError'')"
proof (rule retryAttempt.raw_induct
    [where P = "\<lambda>ro task a w y. ro = pollOpts \<longrightarrow> task = checkIfJobIsComplete getJob spread opts \<longrightarrow>
       (\<exists>i. \<forall>e. getJob (getJobCalls w + i) = Inl e
            \<longrightarrow> err_name e \<noteq> ''JobCompletionStatusCheckPendingError'')", OF _ assms],
    goal_cases)
  case (1 f ro task a w y)
  show ?case
  proof (intro impI)
    assume ro: "ro = pollOpts" and task: "task = checkIfJobIsComplete getJob spread opts"
    show "\<exists>i. \<forall>e. getJob (getJobCalls w + i) = Inl e
            \<longrightarrow> err_name e \<noteq> ''JobCompletionStatusCheckPendingError''"
    proof (cases "\<exists>e. getJob (getJobCalls w) = Inl e \<and> err_name e = ''JobCompletionStatusCheckPendingError''")
      case False
      then have "\<forall>e. getJob (getJobCalls w + 0) = Inl e \<longrightarrow> err_name e \<noteq> ''JobCompletionStatusCheckPendingError''"
        by auto
      then show ?thesis by blast
    next
      case True
      then obtain e where e: "getJob (getJobCalls w) = Inl e"
        "err_name e = ''JobCompletionStatusCheckPendingError''" by blast
      define w' where "w' = setTimeout 1000 (markJobProgressPercentage (err_message e) (w\<lparr>getJobCalls := Suc (getJobCalls w)\<rparr>))"
      from 1(2) have "f ro task (Suc a) w' = Some y"
        using e by (simp add: ro task checkIfJobIsComplete_def pollOpts_def pollErrorFilter_def w'_def)
      from 1(1) [OF this] ro task
      obtain i where "\<forall>e. getJob (getJobCalls w' + i) = Inl e \<longrightarrow> err_name e \<noteq> ''JobCompletionStatusCheckPendingError''"
        by blast
      then have "\<forall>e. getJob (getJobCalls w + Suc i) = Inl e \<longrightarrow> err_name e \<noteq> ''JobCompletionStatusCheckPendingError''"
        by (simp add: w'_def setTimeout_def markJobProgressPercentage_def)
      then show ?thesis by blast
    qed
  qed
qed


text \<open>
  Claim C5. The poll is configured with an interval of 1000 milliseconds and an infinite
  number of attempts. Suppose the next \<open>k\<close> answers of the job query are pending errors.
  If the answer after them is a result, the poll returns the session extended by it after
  \<open>k + 1\<close> calls, having reported the message of each pending answer in order and then
  100, and having waited 1000 milliseconds \<open>k\<close> times. If the answer after them is an
  error with another name, the poll hands that error on after \<open>k + 1\<close> calls, reporting
  no 100 and waiting no further. If every answer is pending, the poll never returns.
\<close>

theorem C5_poll_retries_pending_until_terminal:
  assumes "\<forall>i<k. \<exists>e. getJob (getJobCalls w + i) = Inl e
              \<and> err_name e = ''JobCompletionStatusCheckPendingError''"
  shows "interval pollOpts = 1000 \<and> times pollOpts = \<infinity>
    \<and> (\<forall>result. getJob (getJobCalls w + k) = Inr result \<longrightarrow>
          pollForJobCompletion getJob spread opts w
            = Some (Inr (spread opts result),
                w\<lparr>getJobCalls := getJobCalls w + k + 1,
                  progress := progress w
                    @ map (\<lambda>i. thrownMessage (getJob (getJobCalls w + i))) [0..<k] @ [JNum 100],
                  console := console w @ [''ok -- Theme Processing Finished''],
                  timeouts := timeouts w @ replicate k 1000\<rparr>))
    \<and> (\<forall>err. getJob (getJobCalls w + k) = Inl err
            \<and> err_name err \<noteq> ''JobCompletionStatusCheckPendingError'' \<longrightarrow>
          pollForJobCompletion getJob spread opts w
            = Some (Inl err,
                w\<lparr>getJobCalls := getJobCalls w + k + 1,
                  progress := progress w
                    @ map (\<lambda>i. thrownMessage (getJob (getJobCalls w + i))) [0..<k],
                  timeouts := timeouts w @ replicate k 1000\<rparr>))
    \<and> ((\<forall>i. \<exists>e. getJob (getJobCalls w + i) = Inl e
              \<and> err_name e = ''JobCompletionStatusCheckPendingError'') \<longrightarrow>
          pollForJobCompletion getJob spread opts w = None)"
proof -
  define wk where "wk = w\<lparr>progress := progress w @ map (\<lambda>i. thrownMessage (getJob (getJobCalls w + i))) [0..<k],
                timeouts := timeouts w @ replicate k 1000,
                getJobCalls := getJobCalls w + k\<rparr>"
  have pre: "pollForJobCompletion getJob spread opts w
       = retryAttempt pollOpts (checkIfJobIsComplete getJob spread opts) (1 + k) wk"
    unfolding pollForJobCompletion_def retryable_def wk_def
    by (rule poll_pending_prefix [OF assms])
  have calls: "getJobCalls wk = getJobCalls w + k" by (simp add: wk_def)
  have config: "interval pollOpts = 1000 \<and> times pollOpts = \<infinity>" by (simp add: pollOpts_def)
  have complete: "pollForJobCompletion getJob spread opts w
            = Some (Inr (spread opts result),
                w\<lparr>getJobCalls := getJobCalls w + k + 1,
                  progress := progress w
                    @ map (\<lambda>i. thrownMessage (getJob (getJobCalls w + i))) [0..<k] @ [JNum 100],
                  console := console w @ [''ok -- Theme Processing Finished''],
                  timeouts := timeouts w @ replicate k 1000\<rparr>)"
    if r: "getJob (getJobCalls w + k) = Inr result" for result
  proof -
    have "getJob (getJobCalls wk) = Inr result" using r calls by simp
    from poll_step_complete [of getJob wk result spread opts "1 + k"] this
    have "pollForJobCompletion getJob spread opts w
        = Some (Inr (spread opts result),
             wk\<lparr>getJobCalls := Suc (getJobCalls wk),
               progress := progress wk @ [JNum 100],
               console := console wk @ [''ok -- Theme Processing Finished'']\<rparr>)"
      using pre by simp
    moreover have "wk\<lparr>getJobCalls := Suc (getJobCalls wk),
               progress := progress wk @ [JNum 100],
               console := console wk @ [''ok -- Theme Processing Finished'']\<rparr>
        = w\<lparr>getJobCalls := getJobCalls w + k + 1,
                  progress := progress w
                    @ map (\<lambda>i. thrownMessage (getJob (getJobCalls w + i))) [0..<k] @ [JNum 100],
                  console := console w @ [''ok -- Theme Processing Finished''],
                  timeouts := timeouts w @ replicate k 1000\<rparr>"
      by (rule world.equality) (simp_all add: wk_def)
    ultimately show ?thesis by simp
  qed
  have failed: "pollForJobCompletion getJob spread opts w
            = Some (Inl err,
                w\<lparr>getJobCalls := getJobCalls w + k + 1,
                  progress := progress w
                    @ map (\<lambda>i. thrownMessage (getJob (getJobCalls w + i))) [0..<k],
                  timeouts := timeouts w @ replicate k 1000\<rparr>)"
    if r: "getJob (getJobCalls w + k) = Inl err"
      and n: "err_name err \<noteq> ''JobCompletionStatusCheckPendingError''" for err
  proof -
    have "getJob (getJobCalls wk) = Inl err" using r calls by simp
    from poll_step_failed [of getJob wk err spread opts "1 + k"] this n
    have "pollForJobCompletion getJob spread opts w
        = Some (Inl err, wk\<lparr>getJobCalls := Suc (getJobCalls wk)\<rparr>)"
      using pre by simp
    moreover have "wk\<lparr>getJobCalls := Suc (getJobCalls wk)\<rparr>
        = w\<lparr>getJobCalls := getJobCalls w + k + 1,
                  progress := progress w
                    @ map (\<lambda>i. thrownMessage (getJob (getJobCalls w + i))) [0..<k],
                  timeouts := timeouts w @ replicate k 1000\<rparr>"
      by (rule world.equality) (simp_all add: wk_def)
    ultimately show ?thesis by simp
  qed
  have forever: "pollForJobCompletion getJob spread opts w = None"
    if p: "\<forall>i. \<exists>e. getJob (getJobCalls w + i) = Inl e
              \<and> err_name e = ''JobCompletionStatusCheckPendingError''"
  proof (rule ccontr)
    assume "pollForJobCompletion getJob spread opts w \<noteq> None"
    then obtain y where "retryAttempt pollOpts (checkIfJobIsComplete getJob spread opts) 1 w = Some y"
      by (auto simp: pollForJobCompletion_def retryable_def)
    from poll_never_returns [OF this, of getJob spread opts]
    obtain i where "\<forall>e. getJob (getJobCalls w + i) = Inl e
            \<longrightarrow> err_name e \<noteq> ''JobCompletionStatusCheckPendingError''" by blast
    with p show False by blast
  qed
  from config complete failed forever show ?thesis by blast
qed

text \<open>
  Claim C5 at the answers pending (10), pending (55), complete: the progress reported is
  10, 55, 100, and the poll ends after the third call. At the answers pending (10), failed:
  the failure is handed on after the second call. At answers that are always pending: the
  poll does not return.
\<close>

theorem C5_poll_witness:
  "pollForJobCompletion exampleJob keepOptions (sessionWith []) world0
     = Some (Inr (sessionWith []),
         \<lparr>progress = [JNum 10, JNum 55, JNum 100],
          console = [''ok -- Theme Processing Finished''],
          timeouts = [1000, 1000],
          getJobCalls = 3,
          activateCalls = 0\<rparr>)
   \<and> pollForJobCompletion pendingThenFails keepOptions (sessionWith []) world0
     = Some (Inl (JsError ''Error'' (JStr ''Request failed'')),
         \<lparr>progress = [JNum 10], console = [], timeouts = [1000], getJobCalls = 2,
          activateCalls = 0\<rparr>)
   \<and> pollForJobCompletion alwaysPending keepOptions (sessionWith []) world0 = None"
proof -
  have two: "[0..<2] = [0, Suc 0]" by (simp add: upt_rec)
  have p: "\<forall>i<2. \<exists>e. exampleJob (getJobCalls world0 + i) = Inl e
              \<and> err_name e = ''JobCompletionStatusCheckPendingError''"
    by (simp add: exampleJob_def world0_def)
  have c: "exampleJob (getJobCalls world0 + 2) = Inr ''complete''"
    by (simp add: exampleJob_def world0_def)
  from C5_poll_retries_pending_until_terminal [OF p, of keepOptions "sessionWith []"] c
  have "pollForJobCompletion exampleJob keepOptions (sessionWith []) world0
            = Some (Inr (keepOptions (sessionWith []) ''complete''),
                world0\<lparr>getJobCalls := getJobCalls world0 + 2 + 1,
                  progress := progress world0
                    @ map (\<lambda>i. thrownMessage (exampleJob (getJobCalls world0 + i))) [0..<2] @ [JNum 100],
                  console := console world0 @ [''ok -- Theme Processing Finished''],
                  timeouts := timeouts world0 @ replicate 2 1000\<rparr>)"
    by blast
  then have complete: "pollForJobCompletion exampleJob keepOptions (sessionWith []) world0
     = Some (Inr (sessionWith []),
         \<lparr>progress = [JNum 10, JNum 55, JNum 100],
          console = [''ok -- Theme Processing Finished''],
          timeouts = [1000, 1000],
          getJobCalls = 3,
          activateCalls = 0\<rparr>)"
    using two
    by (simp add: world0_def keepOptions_def thrownMessage_def exampleJob_def numeral_2_eq_2)
  have p1: "\<forall>i<1. \<exists>e. pendingThenFails (getJobCalls world0 + i) = Inl e
              \<and> err_name e = ''JobCompletionStatusCheckPendingError''"
    by (simp add: pendingThenFails_def world0_def)
  have f: "pendingThenFails (getJobCalls world0 + 1) = Inl (JsError ''Error'' (JStr ''Request failed''))
      \<and> err_name (JsError ''Error'' (JStr ''Request failed'')) \<noteq> ''JobCompletionStatusCheckPendingError''"
    by (simp add: pendingThenFails_def world0_def)
  from C5_poll_retries_pending_until_terminal [OF p1, of keepOptions "sessionWith []"] f
  have "pollForJobCompletion pendingThenFails keepOptions (sessionWith []) world0
            = Some (Inl (JsError ''Error'' (JStr ''Request failed'')),
                world0\<lparr>getJobCalls := getJobCalls world0 + 1 + 1,
                  progress := progress world0
                    @ map (\<lambda>i. thrownMessage (pendingThenFails (getJobCalls world0 + i))) [0..<1],
                  timeouts := timeouts world0 @ replicate 1 1000\<rparr>)"
    by blast
  then have failed: "pollForJobCompletion pendingThenFails keepOptions (sessionWith []) world0
     = Some (Inl (JsError ''Error'' (JStr ''Request failed'')),
         \<lparr>progress = [JNum 10], console = [], timeouts = [1000], getJobCalls = 2,
          activateCalls = 0\<rparr>)"
    by (simp add: world0_def thrownMessage_def pendingThenFails_def)
  have p0: "\<forall>i<0. \<exists>e. alwaysPending (getJobCalls world0 + i) = Inl e
              \<and> err_name e = ''JobCompletionStatusCheckPendingError''"
    by simp
  have a: "\<forall>i. \<exists>e. alwaysPending (getJobCalls world0 + i) = Inl e
              \<and> err_name e = ''JobCompletionStatusCheckPendingError''"
    by (simp add: alwaysPending_def)
  from C5_poll_retries_pending_until_terminal [OF p0, of keepOptions "sessionWith []"] a
  have forever: "pollForJobCompletion alwaysPending keepOptions (sessionWith []) world0 = None"
    by blast
  from complete failed forever show ?thesis by blast
qed

section \<open>Theorems: activating a variation\<close>

lemma activation_attempt_done:
  assumes "applyTheme opts" "\<not> isTimeout (api (activateCalls w) (variationId opts)) \<or> \<not> a < 3"
  shows "retryAttempt activationOpts (requestToApplyVariation api opts) a w
     = Some (surfaced opts (api (activateCalls w) (variationId opts)),
             w\<lparr>activateCalls := Suc (activateCalls w)\<rparr>)"
  apply (subst retryAttempt.simps)
  using assms
  apply (auto simp add: requestToApplyVariation_def activationOpts_def activationErrorFilter_def
      isTimeout_def surfaced_def numeral_eq_enat split: sum.splits)
  done

lemma activation_attempt_again:
  assumes "applyTheme opts" "isTimeout (api (activateCalls w) (variationId opts))" "a < 3"
  shows "retryAttempt activationOpts (requestToApplyVariation api opts) a w
     = retryAttempt activationOpts (requestToApplyVariation api opts) (Suc a)
         (w\<lparr>activateCalls := Suc (activateCalls w),
            console := console w @ [retryWarning],
            timeouts := timeouts w @ [1000]\<rparr>)"
  apply (subst retryAttempt.simps)
  using assms
  apply (auto simp add: requestToApplyVariation_def activationOpts_def activationErrorFilter_def
      isTimeout_def console_log_def setTimeout_def retryWarning_def numeral_eq_enat
      split: sum.splits)
  done

text \<open>
  Claim C9. The activation is configured with an interval of 1000 milliseconds and 3
  attempts. When the theme is to be applied: an attempt that does not fail with the name
  \<open>VariationActivationTimeoutError\<close> ends the step at once with its outcome, a success
  or the error as thrown; a timeout on the first or second attempt is followed, after a
  warning and 1000 milliseconds, by another attempt; and the outcome of the third attempt
  is handed on whatever it is, so a third timeout is surfaced after exactly three calls.
\<close>

theorem C9_activation_retries_timeouts_three_attempts:
  "interval activationOpts = 1000 \<and> times activationOpts = 3
   \<and> requestToApplyVariationWithRetrys api opts w
     = (if \<not> applyTheme opts then Some (Inr opts, w)
        else if \<not> isTimeout (api (activateCalls w) (variationId opts)) then
          Some (surfaced opts (api (activateCalls w) (variationId opts)),
                w\<lparr>activateCalls := activateCalls w + 1\<rparr>)
        else if \<not> isTimeout (api (activateCalls w + 1) (variationId opts)) then
          Some (surfaced opts (api (activateCalls w + 1) (variationId opts)),
                w\<lparr>activateCalls := activateCalls w + 2,
                  console := console w @ [retryWarning],
                  timeouts := timeouts w @ [1000]\<rparr>)
        else
          Some (surfaced opts (api (activateCalls w + 2) (variationId opts)),
                w\<lparr>activateCalls := activateCalls w + 3,
                  console := console w @ [retryWarning, retryWarning],
                  timeouts := timeouts w @ [1000, 1000]\<rparr>))"
proof -
  let ?run = "retryAttempt activationOpts (requestToApplyVariation api opts)"
  have config: "interval activationOpts = 1000 \<and> times activationOpts = 3"
    by (simp add: activationOpts_def)
  have start: "requestToApplyVariationWithRetrys api opts w = ?run 1 w"
    by (simp add: requestToApplyVariationWithRetrys_def retryable_def)
  show ?thesis
  proof (cases "applyTheme opts")
    case False
    have "?run 1 w = Some (Inr opts, w)"
      by (subst retryAttempt.simps) (simp add: requestToApplyVariation_def False)
    then show ?thesis using False config start by simp
  next
    case True
    define w1 where "w1 = w\<lparr>activateCalls := Suc (activateCalls w),
            console := console w @ [retryWarning], timeouts := timeouts w @ [1000]\<rparr>"
    define w2 where "w2 = w1\<lparr>activateCalls := Suc (activateCalls w1),
            console := console w1 @ [retryWarning], timeouts := timeouts w1 @ [1000]\<rparr>"
    have c1: "activateCalls w1 = activateCalls w + 1" by (simp add: w1_def)
    have c2: "activateCalls w2 = activateCalls w + 2" by (simp add: w2_def w1_def)
    show ?thesis
    proof (cases "isTimeout (api (activateCalls w) (variationId opts))")
      case False
      from activation_attempt_done [of opts api w 1] True False
      show ?thesis using config start by simp
    next
      case t0: True
      have s1: "?run 1 w = ?run 2 w1"
        using activation_attempt_again [of opts api w 1] True t0 by (simp add: w1_def numeral_2_eq_2)
      show ?thesis
      proof (cases "isTimeout (api (activateCalls w + 1) (variationId opts))")
        case False
        from activation_attempt_done [of opts api w1 2] True False c1
        have "?run 2 w1 = Some (surfaced opts (api (activateCalls w + 1) (variationId opts)),
             w1\<lparr>activateCalls := Suc (activateCalls w1)\<rparr>)" by simp
        moreover have "w1\<lparr>activateCalls := Suc (activateCalls w1)\<rparr>
           = w\<lparr>activateCalls := activateCalls w + 2,
                  console := console w @ [retryWarning],
                  timeouts := timeouts w @ [1000]\<rparr>"
          by (rule world.equality) (simp_all add: w1_def)
        ultimately show ?thesis using True t0 False config start s1 by simp
      next
        case t1: True
        have "isTimeout (api (activateCalls w1) (variationId opts))" using t1 c1 by simp
        from activation_attempt_again [of opts api w1 2] True this
        have s2: "?run 2 w1 = ?run 3 w2" by (simp add: w2_def numeral_3_eq_3 numeral_2_eq_2)
        from activation_attempt_done [of opts api w2 3] True c2
        have "?run 3 w2 = Some (surfaced opts (api (activateCalls w + 2) (variationId opts)),
             w2\<lparr>activateCalls := Suc (activateCalls w2)\<rparr>)" by simp
        moreover have "w2\<lparr>activateCalls := Suc (activateCalls w2)\<rparr>
           = w\<lparr>activateCalls := activateCalls w + 3,
                  console := console w @ [retryWarning, retryWarning],
                  timeouts := timeouts w @ [1000, 1000]\<rparr>"
          by (rule world.equality) (simp_all add: w2_def w1_def)
        ultimately show ?thesis using True t0 t1 config start s1 s2 by simp
      qed
    qed
  qed
qed

text \<open>
  Claim C9 at an activation that always times out (the error is surfaced after three
  calls and two waits) and at one that succeeds on the third attempt.
\<close>

theorem C9_activation_witness:
  "requestToApplyVariationWithRetrys alwaysTimeout ((sessionWith [])\<lparr>applyTheme := True\<rparr>) world0
     = Some (Inl timeoutError,
         \<lparr>progress = [], console = [retryWarning, retryWarning], timeouts = [1000, 1000],
          getJobCalls = 0, activateCalls = 3\<rparr>)
   \<and> requestToApplyVariationWithRetrys timeoutsThenOk ((sessionWith [])\<lparr>applyTheme := True\<rparr>) world0
     = Some (Inr ((sessionWith [])\<lparr>applyTheme := True\<rparr>),
         \<lparr>progress = [], console = [retryWarning, retryWarning], timeouts = [1000, 1000],
          getJobCalls = 0, activateCalls = 3\<rparr>)"
  using C9_activation_retries_timeouts_three_attempts [of alwaysTimeout "(sessionWith [])\<lparr>applyTheme := True\<rparr>" world0]
    C9_activation_retries_timeouts_three_attempts [of timeoutsThenOk "(sessionWith [])\<lparr>applyTheme := True\<rparr>" world0]
  by (simp add: alwaysTimeout_def timeoutsThenOk_def isTimeout_def surfaced_def timeoutError_def
      world0_def sessionWith_def)

section \<open>Theorems: selecting a variation\<close>

lemma getVariations_generic_selects_first:
  assumes "applyTheme opts" and "activate opts = JBool True"
  shows "getVariations (Inr (v # vs)) opts = Inr (opts\<lparr>variationId := Some (variation.uuid v)\<rparr>)"
  using assms by (simp add: getVariations_def)

lemma getVariations_falsy_name_is_matched:
  assumes "applyTheme opts" and "activate opts = JStr []"
  shows "getVariations (Inr vs) opts =
     (case find (\<lambda>item. variation.name item = []) vs of
        None \<Rightarrow> Inl (invalidVariationError vs)
      | Some found \<Rightarrow>
          if variation.uuid found = [] then Inl (invalidVariationError vs)
          else Inr (opts\<lparr>variationId := Some (variation.uuid found)\<rparr>))"
  using assms by (simp add: getVariations_def)

text \<open>
  Claim C2, on the code. When the theme is to be applied and the \<open>activate\<close> flag holds a
  variation name (a non-empty string), the guard \<open>!activate && activate !== undefined\<close>
  of the name-matching branch is false, the branch \<open>if (activate)\<close> runs, and the
  identifier of the first listed variation is selected whatever the name is: a matching
  name does not select its variation, and a name that matches none raises no error.
\<close>

theorem C2_named_variation_selects_first_listed:
  assumes "applyTheme opts" and "activate opts = JStr n" and "n \<noteq> []"
  shows "getVariations (Inr (v # vs)) opts = Inr (opts\<lparr>variationId := Some (variation.uuid v)\<rparr>)"
  using assms by (simp add: getVariations_def)

text \<open>
  Claim C2 at the variations Light and Dark: both the name \<open>Dark\<close> and the name
  \<open>Purple\<close> select the identifier of Light.
\<close>

theorem C2_dark_and_purple_select_light:
  "getVariations (Inr lightDark) (activationSession (JStr ''Dark''))
     = Inr ((activationSession (JStr ''Dark''))\<lparr>variationId := Some ''uuid-light''\<rparr>)
   \<and> getVariations (Inr lightDark) (activationSession (JStr ''Purple''))
     = Inr ((activationSession (JStr ''Purple''))\<lparr>variationId := Some ''uuid-light''\<rparr>)"
  using C2_named_variation_selects_first_listed
          [of "activationSession (JStr ''Dark'')" "''Dark''" "hd lightDark" "tl lightDark"]
        C2_named_variation_selects_first_listed
          [of "activationSession (JStr ''Purple'')" "''Purple''" "hd lightDark" "tl lightDark"]
  by (simp add: activationSession_def lightDark_def)

section \<open>Theorems: module resolution in the static link stage\<close>


lemma run_hooks_append:
  "run_hooks (hs @ hs') path =
     (case run_hooks hs path of
        Inl e \<Rightarrow> Inl e
      | Inr (Some p) \<Rightarrow> Inr (Some p)
      | Inr None \<Rightarrow> run_hooks hs' path)"
  by (induction hs path rule: run_hooks.induct) (auto split: sum.splits option.splits)

lemma runtime_hooks_handlebars:
  "run_hooks (onResolve (handlebarsRuntimePlugin require_resolve)) ''handlebars''
     = (case require_resolve ''handlebars/runtime'' of Inl e \<Rightarrow> Inl e | Inr p \<Rightarrow> Inr (Some p))"
  by (simp add: handlebarsRuntimePlugin_def split: sum.splits)

lemma runtime_hooks_other:
  "path \<noteq> ''handlebars'' \<Longrightarrow> path \<noteq> ''@bigcommerce/handlebars-v4'' \<Longrightarrow>
     run_hooks (onResolve (handlebarsRuntimePlugin require_resolve)) path = Inr None"
  by (simp add: handlebarsRuntimePlugin_def)

text \<open>
  Claim C1, as amended. The plugins of the bundling configuration are \<open>static-helpers\<close>
  and the two polyfill plugins; the plugin named \<open>handlebars-runtime\<close> is not one of
  them. \<open>static-helpers\<close> registers no resolve hook, so the configuration resolves every
  import as the two polyfill plugins and the bundler's own resolution do. The plugin
  \<open>handlebars-runtime\<close> is defined: as the first plugin of a configuration it resolves
  an import of \<open>handlebars\<close> to whatever \<open>handlebars/runtime\<close> resolves to, and it
  leaves every import other than \<open>handlebars\<close> and \<open>@bigcommerce/handlebars-v4\<close> to
  the plugins after it.
\<close>

theorem C1_runtime_redirect_defined_but_not_installed:
  "map plugin_name (build_plugins nodeModulesPolyfill nodeGlobalsPolyfill)
     = [''static-helpers'', plugin_name nodeModulesPolyfill, plugin_name nodeGlobalsPolyfill]
   \<and> plugin_name (handlebarsRuntimePlugin require_resolve) = ''handlebars-runtime''
   \<and> esbuild_resolve (build_plugins nodeModulesPolyfill nodeGlobalsPolyfill) default_resolve path
       = esbuild_resolve [nodeModulesPolyfill, nodeGlobalsPolyfill] default_resolve path
   \<and> esbuild_resolve (handlebarsRuntimePlugin require_resolve # plugins) default_resolve ''handlebars''
       = require_resolve ''handlebars/runtime''
   \<and> (path \<noteq> ''handlebars'' \<and> path \<noteq> ''@bigcommerce/handlebars-v4'' \<longrightarrow>
        esbuild_resolve (handlebarsRuntimePlugin require_resolve # plugins) default_resolve path
          = esbuild_resolve plugins default_resolve path)"
proof (intro conjI impI)
  show "map plugin_name (build_plugins nodeModulesPolyfill nodeGlobalsPolyfill)
     = [''static-helpers'', plugin_name nodeModulesPolyfill, plugin_name nodeGlobalsPolyfill]"
    by (simp add: build_plugins_def staticHelpersPlugin_def)
  show "plugin_name (handlebarsRuntimePlugin require_resolve) = ''handlebars-runtime''"
    by (simp add: handlebarsRuntimePlugin_def)
  show "esbuild_resolve (build_plugins nodeModulesPolyfill nodeGlobalsPolyfill) default_resolve path
       = esbuild_resolve [nodeModulesPolyfill, nodeGlobalsPolyfill] default_resolve path"
    by (simp add: esbuild_resolve_def build_plugins_def staticHelpersPlugin_def)
  show "esbuild_resolve (handlebarsRuntimePlugin require_resolve # plugins) default_resolve ''handlebars''
       = require_resolve ''handlebars/runtime''"
    by (simp add: esbuild_resolve_def run_hooks_append runtime_hooks_handlebars split: sum.splits)
next
  assume "path \<noteq> ''handlebars'' \<and> path \<noteq> ''@bigcommerce/handlebars-v4''"
  then have "run_hooks (onResolve (handlebarsRuntimePlugin require_resolve)) path = Inr None"
    by (simp add: runtime_hooks_other)
  then show "esbuild_resolve (handlebarsRuntimePlugin require_resolve # plugins) default_resolve path
          = esbuild_resolve plugins default_resolve path"
    by (simp add: esbuild_resolve_def run_hooks_append)
qed

text \<open>
  Claim C1 as stated fails: under the configuration's plugins an import of
  \<open>handlebars\<close> resolves to the full template engine, not to the runtime-only variant.
\<close>

theorem C1_handlebars_not_redirected_counterexample:
  "esbuild_resolve
     (build_plugins (examplePolyfill ''node-modules-polyfill'') (examplePolyfill ''node-globals-polyfill''))
     exampleResolve ''handlebars''
     = Inr ''node_modules/handlebars/dist/cjs/handlebars.js''
   \<and> exampleResolve ''handlebars/runtime'' = Inr ''node_modules/handlebars/dist/cjs/handlebars.runtime.js''
   \<and> esbuild_resolve
     (build_plugins (examplePolyfill ''node-modules-polyfill'') (examplePolyfill ''node-globals-polyfill''))
     exampleResolve ''handlebars''
     \<noteq> exampleResolve ''handlebars/runtime''"
  by (simp add: esbuild_resolve_def build_plugins_def staticHelpersPlugin_def examplePolyfill_def
      exampleResolve_def)

text \<open>
  Claim C1, as amended, at a configuration with the plugin installed first: \<open>handlebars\<close>
  resolves to the runtime-only variant and \<open>fs\<close> is still taken by the polyfill plugin.
\<close>

theorem C1_runtime_redirect_witness:
  "esbuild_resolve
     (handlebarsRuntimePlugin exampleResolve
        # build_plugins (examplePolyfill ''node-modules-polyfill'') (examplePolyfill ''node-globals-polyfill''))
     exampleResolve ''handlebars''
     = Inr ''node_modules/handlebars/dist/cjs/handlebars.runtime.js''
   \<and> esbuild_resolve
     (handlebarsRuntimePlugin exampleResolve
        # build_plugins (examplePolyfill ''node-modules-polyfill'') (examplePolyfill ''node-globals-polyfill''))
     exampleResolve ''fs''
     = Inr ''polyfill:fs''"
proof -
  have ne: "''fs'' \<noteq> ''handlebars'' \<and> ''fs'' \<noteq> ''@bigcommerce/handlebars-v4''" by simp
  from C1_runtime_redirect_defined_but_not_installed
    [of "examplePolyfill ''node-modules-polyfill''" "examplePolyfill ''node-globals-polyfill''"
        exampleResolve exampleResolve "''fs''"
        "build_plugins (examplePolyfill ''node-modules-polyfill'') (examplePolyfill ''node-globals-polyfill'')"]
    ne
  have "esbuild_resolve
     (handlebarsRuntimePlugin exampleResolve
        # build_plugins (examplePolyfill ''node-modules-polyfill'') (examplePolyfill ''node-globals-polyfill''))
     exampleResolve ''handlebars'' = exampleResolve ''handlebars/runtime''
    \<and> esbuild_resolve
     (handlebarsRuntimePlugin exampleResolve
        # build_plugins (examplePolyfill ''node-modules-polyfill'') (examplePolyfill ''node-globals-polyfill''))
     exampleResolve ''fs''
     = esbuild_resolve [examplePolyfill ''node-modules-polyfill'', examplePolyfill ''node-globals-polyfill'']
         exampleResolve ''fs''"
    by simp
  then show ?thesis
    by (simp add: exampleResolve_def esbuild_resolve_def examplePolyfill_def)
qed

section \<open>Theorems: the helper allow-list\<close>























section \<open>Theorems: the build orchestrator\<close>


lemma initBundle_runStages:
  "initBundle join themePath dest outcome =
     (case runStages outcome code_stage_order [] of
        (Some err, started) \<Rightarrow> (Inl err, started)
      | (None, started) \<Rightarrow> (Inr (outputDirOf join themePath dest), started))"
  by (simp add: initBundle_def await_def code_stage_order_def split: option.splits)

lemma runStages_all_succeed:
  "(\<forall>s \<in> set ss. outcome s = None) \<Longrightarrow> runStages outcome ss started = (None, started @ ss)"
  by (induction ss arbitrary: started) auto

lemma runStages_first_failure:
  "(\<forall>s \<in> set before. outcome s = None) \<Longrightarrow> outcome s = Some err \<Longrightarrow>
     runStages outcome (before @ s # after) started = (Some err, started @ before @ [s])"
  by (induction before arbitrary: started) auto

text \<open>
  Claim C7, as amended. The stages of a build run in the order validate, create the output
  directory, assemble templates, assemble language files, fetch schema, fetch configuration,
  and then the tail (package descriptor, dependency installation, worker script, assets,
  deployment descriptor). When every stage completes, all of them have run in this order
  and the build returns the output directory. When a stage throws and every stage before
  it completed, the build stops there: the stages after it are not started, and the error
  thrown is the error the build surfaces, unchanged.
\<close>

theorem C7_stages_in_code_order_first_failure_aborts:
  "code_stage_order =
     [ValidateTheme, CreateOutputDir, AssembleTemplates, AssembleLang, GetSchema, GetConfig,
      GenerateWorkerPackageJson, InstallWorkerDependencies, GenerateWorkerScript, CopyAssets,
      GenerateWranglerConfig]
   \<and> ((\<forall>s \<in> set code_stage_order. outcome s = None) \<longrightarrow>
        initBundle join themePath dest outcome
          = (Inr (outputDirOf join themePath dest), code_stage_order))
   \<and> (\<forall>before s after err.
         code_stage_order = before @ s # after \<and> (\<forall>b \<in> set before. outcome b = None)
           \<and> outcome s = Some err \<longrightarrow>
         initBundle join themePath dest outcome = (Inl err, before @ [s]))"
proof (intro conjI allI impI)
  show "code_stage_order =
     [ValidateTheme, CreateOutputDir, AssembleTemplates, AssembleLang, GetSchema, GetConfig,
      GenerateWorkerPackageJson, InstallWorkerDependencies, GenerateWorkerScript, CopyAssets,
      GenerateWranglerConfig]"
    by (simp add: code_stage_order_def)
next
  assume "\<forall>s \<in> set code_stage_order. outcome s = None"
  from runStages_all_succeed [OF this, of "[]"]
  show "initBundle join themePath dest outcome
          = (Inr (outputDirOf join themePath dest), code_stage_order)"
    by (simp add: initBundle_runStages)
next
  fix before s after err
  assume a: "code_stage_order = before @ s # after \<and> (\<forall>b \<in> set before. outcome b = None)
           \<and> outcome s = Some err"
  then have "runStages outcome (before @ s # after) [] = (Some err, [] @ before @ [s])"
    using runStages_first_failure [of before outcome s err after "[]"] by blast
  with a show "initBundle join themePath dest outcome = (Inl err, before @ [s])"
    by (simp add: initBundle_runStages)
qed

text \<open>
  Claim C7 as stated fails on the place of the output directory: when the template
  assembly throws, the output directory has already been created, and a build in which
  every stage completes does not run them in the order the specification gives.
\<close>

theorem C7_output_directory_before_templates_counterexample:
  "initBundle slashJoin ''theme'' [] templatesFail
     = (Inl (JsError ''Error'' (JStr ''ENOENT: no such file or directory'')),
        [ValidateTheme, CreateOutputDir, AssembleTemplates])
   \<and> snd (initBundle slashJoin ''theme'' [] allSucceed) = code_stage_order
   \<and> snd (initBundle slashJoin ''theme'' [] allSucceed) \<noteq> spec_stage_order"
  by (simp add: initBundle_def await_def templatesFail_def allSucceed_def code_stage_order_def
      spec_stage_order_def)

text \<open>
  Claim C7, as amended, at a build in which every stage completes and at one in which the
  template assembly throws.
\<close>

theorem C7_stages_witness:
  "initBundle slashJoin ''theme'' [] allSucceed = (Inr ''theme/worker-bundle'', code_stage_order)
   \<and> initBundle slashJoin ''theme'' [] templatesFail
     = (Inl (JsError ''Error'' (JStr ''ENOENT: no such file or directory'')),
        [ValidateTheme, CreateOutputDir, AssembleTemplates])"
proof -
  have ok: "\<forall>s \<in> set code_stage_order. allSucceed s = None" by (simp add: allSucceed_def)
  have split: "code_stage_order = [ValidateTheme, CreateOutputDir] @ AssembleTemplates # drop 3 code_stage_order
     \<and> (\<forall>b \<in> set [ValidateTheme, CreateOutputDir]. templatesFail b = None)
     \<and> templatesFail AssembleTemplates = Some (JsError ''Error'' (JStr ''ENOENT: no such file or directory''))"
    by (simp add: code_stage_order_def templatesFail_def)
  from C7_stages_in_code_order_first_failure_aborts [of allSucceed slashJoin "''theme''" "[]"] ok
  have a: "initBundle slashJoin ''theme'' [] allSucceed
          = (Inr (outputDirOf slashJoin ''theme'' []), code_stage_order)" by blast
  from C7_stages_in_code_order_first_failure_aborts [of templatesFail slashJoin "''theme''" "[]"] split
  have b: "initBundle slashJoin ''theme'' [] templatesFail
     = (Inl (JsError ''Error'' (JStr ''ENOENT: no such file or directory'')),
        [ValidateTheme, CreateOutputDir] @ [AssembleTemplates])" by blast
  from a b show ?thesis by (simp add: outputDirOf_def slashJoin_def)
qed

section \<open>Theorems: generated template functions\<close>


lemma underscore_not_alnum: "\<not> is_alnum (CHR ''_'')"
  by (simp add: is_alnum_def)

lemma sanitize_eq_iff:
  "((if is_alnum c then c else CHR ''_'') = (if is_alnum d then d else CHR ''_''))
     = (c = d \<or> (\<not> is_alnum c \<and> \<not> is_alnum d))"
  using underscore_not_alnum by auto

lemma safeName_eq_iff:
  "(safeName a = safeName b)
     = (length a = length b \<and> (\<forall>i < length a. a ! i = b ! i \<or> (\<not> is_alnum (a ! i) \<and> \<not> is_alnum (b ! i))))"
  by (simp add: safeName_def list_eq_iff_nth_eq sanitize_eq_iff cong: conj_cong)

lemma functionName_eq_iff:
  "(functionName a = functionName b)
     = (length a = length b \<and> (\<forall>i < length a. a ! i = b ! i \<or> (\<not> is_alnum (a ! i) \<and> \<not> is_alnum (b ! i))))"
  unfolding functionName_def using safeName_eq_iff [of a b] by simp

lemma digit_is_alnum: "is_digit c \<Longrightarrow> is_alnum c"
  by (simp add: is_digit_def is_alnum_def Let_def)

lemma clash_has_separator:
  assumes "a \<noteq> b" and "functionName a = functionName b"
  shows "\<exists>i < length a. \<not> is_alnum (a ! i) \<and> \<not> is_alnum (b ! i)"
proof -
  from assms(2) have len: "length a = length b"
    and pos: "\<forall>i < length a. a ! i = b ! i \<or> (\<not> is_alnum (a ! i) \<and> \<not> is_alnum (b ! i))"
    by (simp_all add: functionName_eq_iff)
  from assms(1) len obtain i where "i < length a" "a ! i \<noteq> b ! i"
    by (auto simp: list_eq_iff_nth_eq)
  with pos show ?thesis by blast
qed

lemma clash_not_array_index:
  assumes "a \<noteq> b" and "functionName a = functionName b"
  shows "\<not> is_array_index a \<and> \<not> is_array_index b"
proof -
  from clash_has_separator [OF assms] obtain i where i: "i < length a"
    "\<not> is_alnum (a ! i)" "\<not> is_alnum (b ! i)" by blast
  from assms(2) have len: "length a = length b" by (simp add: functionName_eq_iff)
  have "\<not> is_digit (a ! i)" "\<not> is_digit (b ! i)" using i digit_is_alnum by blast+
  then have "\<not> list_all is_digit a" "\<not> list_all is_digit b"
    using i(1) len by (auto simp: list_all_length)
  then show ?thesis by (simp add: is_array_index_def)
qed

lemma compileTemplates_exact:
  "compileTemplates precompile entries (fns, exps) = Inr (fns', exps') \<Longrightarrow>
     exps' = exps @ map (\<lambda>e. (fst e, functionName (fst e))) (filter hasSource entries)
     \<and> fns' = fns @ concat (map (templateDeclaration precompile) entries)"
proof (induction entries arbitrary: fns exps)
  case Nil
  then show ?case by simp
next
  case (Cons entry entries)
  obtain n d where entry: "entry = (n, d)" by (cases entry)
  show ?case
  proof (cases "templateSourceOf n d")
    case None
    with Cons.prems entry have "compileTemplates precompile entries (fns, exps) = Inr (fns', exps')"
      by simp
    from Cons.IH [OF this] None entry show ?thesis
      by (simp add: hasSource_def templateDeclaration_def)
  next
    case (Some src)
    show ?thesis
    proof (cases "precompileSource precompile src")
      case (Inl err)
      with Cons.prems entry Some show ?thesis by simp
    next
      case (Inr pre)
      let ?fns = "fns @ ''// Template: '' @ n @ nl
                    @ ''const '' @ functionName n @ '' = Handlebars.template(''
                    @ pre @ '');'' @ nl @ nl"
      from Cons.prems entry Some Inr
      have "compileTemplates precompile entries (?fns, exps @ [(n, functionName n)]) = Inr (fns', exps')"
        by simp
      from Cons.IH [OF this] Some Inr entry show ?thesis
        by (simp add: hasSource_def templateDeclaration_def)
    qed
  qed
qed

lemma generateStaticTemplates_exact:
  assumes "generateStaticTemplates precompile templates = Inr (js, exports)"
  shows "exports = map (\<lambda>e. (fst e, functionName (fst e))) (filter hasSource (object_entries templates))
     \<and> js = templatesHeader
            @ concat (map (templateDeclaration precompile) (object_entries templates))
            @ exportMapping exports"
proof -
  from assms obtain fns where c: "compileTemplates precompile (object_entries templates) (templatesHeader, []) = Inr (fns, exports)"
    and t: "js = fns @ exportMapping exports"
    by (auto simp: generateStaticTemplates_def split: sum.splits)
  from compileTemplates_exact [OF c] t show ?thesis by simp
qed

lemma inherited_property_throws:
  "\<exists>e. generateStaticTemplates examplePrecompile inheritedTemplates = Inl e"
  by (simp add: generateStaticTemplates_def inheritedTemplates_def object_entries_def
      is_array_index_def is_digit_def objectPrototypeNames_def precompileSource_def)

text \<open>
  Claim C8, on the code. Two distinct partial identifiers whose sanitized names coincide
  (they differ only at positions where both hold a character outside \<open>[a-zA-Z0-9]\<close>)
  are both compiled, and the generated module declares the same constant twice, once for
  each partial, and maps both identifiers to that one name in its export table: the
  function names are not distinct, and no identifier has a function of its own.
\<close>

theorem C8_clashing_identifiers_share_one_function:
  assumes "a \<noteq> b" and "functionName a = functionName b"
    and "precompile s = Inr p" and "precompile t = Inr q"
  shows "generateStaticTemplates precompile [(a, TString s), (b, TString t)]
     = Inr (templatesHeader
              @ ''// Template: '' @ a @ nl
              @ ''const '' @ functionName a @ '' = Handlebars.template('' @ p @ '');'' @ nl @ nl
              @ ''// Template: '' @ b @ nl
              @ ''const '' @ functionName a @ '' = Handlebars.template('' @ q @ '');'' @ nl @ nl
              @ ''// Export mapping of template names to functions'' @ nl
              @ ''export default {'' @ nl
              @ ''  '' @ quote @ a @ quote @ '': '' @ functionName a @ '','' @ nl
              @ ''  '' @ quote @ b @ quote @ '': '' @ functionName a @ '','' @ nl
              @ ''};'' @ nl,
            [(a, functionName a), (b, functionName a)])"
proof -
  from clash_not_array_index [OF assms(1,2)]
  have "object_entries [(a, TString s), (b, TString t)] = [(a, TString s), (b, TString t)]"
    by (simp add: object_entries_def)
  then show ?thesis
    using assms(2,3,4)
    by (simp add: generateStaticTemplates_def precompileSource_def exportMapping_def exportLine_def)
qed

text \<open>
  Claim C8 at the partials \<open>components/a-b\<close> and \<open>components/a_b\<close>: the text of the
  generated module, with \<open>template_components_a_b\<close> declared twice.
\<close>

theorem C8_separator_clash_evaluated:
  "''components/a-b'' \<noteq> ''components/a_b''
   \<and> functionName ''components/a-b'' = ''template_components_a_b''
   \<and> functionName ''components/a_b'' = ''template_components_a_b''
   \<and> generateStaticTemplates examplePrecompile clashTemplates
     = Inr (templatesHeader
              @ ''// Template: components/a-b'' @ nl
              @ ''const template_components_a_b = Handlebars.template({/* one */});'' @ nl @ nl
              @ ''// Template: components/a_b'' @ nl
              @ ''const template_components_a_b = Handlebars.template({/* two */});'' @ nl @ nl
              @ ''// Export mapping of template names to functions'' @ nl
              @ ''export default {'' @ nl
              @ ''  '' @ quote @ ''components/a-b'' @ quote @ '': template_components_a_b,'' @ nl
              @ ''  '' @ quote @ ''components/a_b'' @ quote @ '': template_components_a_b,'' @ nl
              @ ''};'' @ nl,
            [(''components/a-b'', ''template_components_a_b''),
             (''components/a_b'', ''template_components_a_b'')])"
proof -
  have ne: "''components/a-b'' \<noteq> ''components/a_b''" by simp
  have fa: "functionName ''components/a-b'' = ''template_components_a_b''"
    by (simp add: functionName_def safeName_def is_alnum_def)
  have fb: "functionName ''components/a_b'' = ''template_components_a_b''"
    by (simp add: functionName_def safeName_def is_alnum_def)
  have eq: "functionName ''components/a-b'' = functionName ''components/a_b''"
    using fa fb by simp
  have p1: "examplePrecompile ''one'' = Inr ''{/* one */}''" by (simp add: examplePrecompile_def)
  have p2: "examplePrecompile ''two'' = Inr ''{/* two */}''" by (simp add: examplePrecompile_def)
  from C8_clashing_identifiers_share_one_function [OF ne eq p1 p2]
  have "generateStaticTemplates examplePrecompile clashTemplates
     = Inr (templatesHeader
              @ ''// Template: '' @ ''components/a-b'' @ nl
              @ ''const '' @ functionName ''components/a-b'' @ '' = Handlebars.template('' @ ''{/* one */}'' @ '');'' @ nl @ nl
              @ ''// Template: '' @ ''components/a_b'' @ nl
              @ ''const '' @ functionName ''components/a-b'' @ '' = Handlebars.template('' @ ''{/* two */}'' @ '');'' @ nl @ nl
              @ ''// Export mapping of template names to functions'' @ nl
              @ ''export default {'' @ nl
              @ ''  '' @ quote @ ''components/a-b'' @ quote @ '': '' @ functionName ''components/a-b'' @ '','' @ nl
              @ ''  '' @ quote @ ''components/a_b'' @ quote @ '': '' @ functionName ''components/a-b'' @ '','' @ nl
              @ ''};'' @ nl,
            [(''components/a-b'', functionName ''components/a-b''),
             (''components/a_b'', functionName ''components/a-b'')])"
    by (simp only: clashTemplates_def)
  then have "generateStaticTemplates examplePrecompile clashTemplates
     = Inr (templatesHeader
              @ ''// Template: components/a-b'' @ nl
              @ ''const template_components_a_b = Handlebars.template({/* one */});'' @ nl @ nl
              @ ''// Template: components/a_b'' @ nl
              @ ''const template_components_a_b = Handlebars.template({/* two */});'' @ nl @ nl
              @ ''// Export mapping of template names to functions'' @ nl
              @ ''export default {'' @ nl
              @ ''  '' @ quote @ ''components/a-b'' @ quote @ '': template_components_a_b,'' @ nl
              @ ''  '' @ quote @ ''components/a_b'' @ quote @ '': template_components_a_b,'' @ nl
              @ ''};'' @ nl,
            [(''components/a-b'', ''template_components_a_b''),
             (''components/a_b'', ''template_components_a_b'')])"
    by (simp add: fa)
  with ne fa fb show ?thesis by blast
qed

section \<open>Theorems: template assembly\<close>


lemma undefined_read_name: "err_name (undefined_read prop) = ''TypeError''"
  by (simp add: undefined_read_def TypeError_def)

lemma foldl_pushExternal_failed: "foldl pushExternal (Inl e) entries = Inl e"
  by (induction entries) (simp_all add: pushExternal_def)

lemma promise_all_externalPartial_error:
  "promise_all (map externalPartial files) = Inl e \<Longrightarrow> err_name e = ''TypeError''"
proof (induction files)
  case Nil
  then show ?case by simp
next
  case (Cons f fs)
  then show ?case
    by (cases "externalPartial f")
       (auto simp: externalPartial_def undefined_read_name split: option.splits sum.splits)
qed

lemma pushExternal_error:
  assumes "\<forall>e. acc = Inl e \<longrightarrow> err_name e = ''TypeError''"
    and "pushExternal acc entry = Inl e"
  shows "err_name e = ''TypeError''"
  using assms
  by (auto simp: pushExternal_def undefined_read_name split: sum.splits option.splits
      dest: promise_all_externalPartial_error)

lemma foldl_pushExternal_error:
  assumes "\<forall>e. acc = Inl e \<longrightarrow> err_name e = ''TypeError''"
    and "foldl pushExternal acc entries = Inl e"
  shows "err_name e = ''TypeError''"
  using assms
proof (induction entries arbitrary: acc)
  case Nil
  then show ?case by simp
next
  case (Cons entry entries)
  have "\<forall>e. pushExternal acc entry = Inl e \<longrightarrow> err_name e = ''TypeError''"
    using pushExternal_error [OF Cons.prems(1)] by blast
  from Cons.IH [OF this] Cons.prems(2) show ?case by simp
qed

lemma pushExternal_rejected: "\<exists>e. pushExternal acc (Rejected r) = Inl e"
  by (cases acc) (simp_all add: pushExternal_def)

lemma foldl_pushExternal_rejected:
  "Rejected r \<in> set entries \<Longrightarrow> \<exists>e. foldl pushExternal acc entries = Inl e"
proof (induction entries arbitrary: acc)
  case Nil
  then show ?case by simp
next
  case (Cons entry entries)
  show ?case
  proof (cases "entry = Rejected r")
    case True
    obtain e where "pushExternal acc entry = Inl e"
      using pushExternal_rejected [of acc r] True by blast
    then show ?thesis by (simp add: foldl_pushExternal_failed)
  next
    case False
    with Cons.prems have "Rejected r \<in> set entries" by simp
    from Cons.IH [OF this] show ?thesis by simp
  qed
qed

lemma pushExternal_empty_listing: "pushExternal (Inr partials) (Fulfilled []) = Inr partials"
  by (simp add: pushExternal_def)

lemma allSettled_rejected:
  "Inl err \<in> set ps \<Longrightarrow> Rejected err \<in> set (promise_allSettled ps)"
  by (induction ps) (auto simp: promise_allSettled_def)

text \<open>
  Claim C3, on the code. When a template of the theme refers to an external library and
  listing that library's template directory fails, as it does for a directory that does
  not exist, the settled entry of that listing has no \<open>value\<close>, the reduce callback calls
  \<open>.map\<close> on \<open>undefined\<close>, and the template assembly throws a \<open>TypeError\<close>: the
  stage does not succeed with zero partials from that library.
\<close>

theorem C3_missing_library_directory_throws:
  assumes "recursiveReadDir env (path_join env [themePath, ''templates'']) = Inr files"
    and "externalLibsOf env files = Inr libs"
    and "lib \<in> set libs"
    and "recursiveReadDir env (path_join env [themePath, ''node_modules'', lib, ''templates'']) = Inl err"
  shows "\<exists>e. assembleTemplates env themePath = Inl e \<and> err_name e = ''TypeError''"
proof -
  let ?reads = "map (\<lambda>lib. recursiveReadDir env (path_join env [themePath, ''node_modules'', lib, ''templates''])) libs"
  have "Inl err \<in> set ?reads" using assms(3,4) by force
  then have rej: "Rejected err \<in> set (promise_allSettled ?reads)"
    by (rule allSettled_rejected)
  from foldl_pushExternal_rejected [OF rej, of "Inr []"]
  obtain e where e: "foldl pushExternal (Inr []) (promise_allSettled ?reads) = Inl e" by blast
  have "err_name e = ''TypeError''"
    using foldl_pushExternal_error [OF _ e] by simp
  moreover have "allPartials env themePath = Inl e"
    using assms(1,2) e by (simp add: allPartials_def promise_allSettled_def)
  ultimately show ?thesis by (simp add: assembleTemplates_def)
qed

lemma example_libs:
  "externalLibsOf exampleEnv [''theme/templates/pages/home.html''] = Inr [''foo'']"
  by (simp add: externalLibsOf_def getExternalLibs_def exampleEnv_def libOfImport_def
      homeTemplate_def quote_def js_split_def js_index_def removeDuplicates_def)

text \<open>
  Claim C3 at a theme whose home page includes a partial of the library \<open>foo\<close>, with no
  directory \<open>theme/node_modules/foo/templates\<close>.
\<close>

theorem C3_missing_library_witness:
  "assembleTemplates exampleEnv ''theme''
     = Inl (TypeError ''Cannot read properties of undefined (reading 'map')'')
   \<and> (\<exists>e. assembleTemplates exampleEnv ''theme'' = Inl e \<and> err_name e = ''TypeError'')"
proof -
  have a: "recursiveReadDir exampleEnv (path_join exampleEnv [''theme'', ''templates''])
      = Inr [''theme/templates/pages/home.html'']"
    by (simp add: exampleEnv_def slashJoin_def)
  have c: "''foo'' \<in> set [''foo'']" by simp
  have d: "recursiveReadDir exampleEnv (path_join exampleEnv [''theme'', ''node_modules'', ''foo'', ''templates''])
      = Inl (noSuchDirectory ''theme/node_modules/foo/templates'')"
    by (simp add: exampleEnv_def slashJoin_def)
  have "allPartials exampleEnv ''theme'' = Inl (undefined_read ''map'')"
    using a d example_libs
    by (simp add: allPartials_def promise_allSettled_def pushExternal_def)
  then have "assembleTemplates exampleEnv ''theme''
     = Inl (TypeError ''Cannot read properties of undefined (reading 'map')'')"
    by (simp add: assembleTemplates_def undefined_read_def)
  with C3_missing_library_directory_throws [OF a example_libs c d] show ?thesis by blast
qed

end
